theory Spec2Isabelle
  imports Complex_Main "HOL-Library.Multiset" "HOL-Library.AList"
begin

section \<open>Python strings\<close>

text \<open>
  A Python \<open>str\<close> is modelled as a \<open>string\<close> whose characters are the code points
  below 256. \<open>py_isspace\<close> is \<open>str.isspace\<close> on one such character, the set that
  \<open>str.split()\<close> and \<open>str.strip()\<close> use: U+0009..U+000D, U+001C..U+0020, U+0085, U+00A0.
\<close>

definition py_isspace :: "char \<Rightarrow> bool" where
  "py_isspace c =
     (let n = (of_char c :: nat)
      in (9 \<le> n \<and> n \<le> 13) \<or> (28 \<le> n \<and> n \<le> 32) \<or> n = 133 \<or> n = 160)"

text \<open>
  \<open>str.split()\<close> with no argument: the maximal runs of non-whitespace characters, in order.
  \<open>split_from cur s\<close> scans \<open>s\<close> with the run read so far in \<open>cur\<close>.
\<close>

fun split_from :: "string \<Rightarrow> string \<Rightarrow> string list" where
  "split_from cur [] = (if cur = [] then [] else [cur])"
| "split_from cur (c # cs) =
     (if py_isspace c
      then (if cur = [] then split_from [] cs else cur # split_from [] cs)
      else split_from (cur @ [c]) cs)"

definition py_split :: "string \<Rightarrow> string list" where
  "py_split s = split_from [] s"

definition py_strip :: "string \<Rightarrow> string" where
  "py_strip s = rev (dropWhile py_isspace (rev (dropWhile py_isspace s)))"

section \<open>Header cleaning\<close>

text \<open>
  \<^verbatim>\<open>
  def clean_column_name(column_name):
      parts = column_name.split()
      cleaned_name = ''.join(part for part in parts if part)
      cleaned_name = ''.join(char for char in cleaned_name if char not in ['.', '_']).strip()
      return cleaned_name
  \<close>
\<close>

definition clean_column_name :: "string \<Rightarrow> string" where
  "clean_column_name column_name =
     (let parts = py_split column_name;
          cleaned_name = concat (filter (\<lambda>part. part \<noteq> []) parts);
          cleaned_name = py_strip (filter (\<lambda>char. char \<notin> set [CHR ''.'', CHR ''_'']) cleaned_name)
      in cleaned_name)"

text \<open>
  The reference definition, following the words of the specification: remove all
  whitespace, and remove the literal characters \<open>.\<close> and \<open>_\<close>; what remains keeps its
  order and case.
\<close>

definition remove_whitespace :: "string \<Rightarrow> string" where
  "remove_whitespace s = filter (\<lambda>c. \<not> py_isspace c) s"

definition remove_dot_underscore :: "string \<Rightarrow> string" where
  "remove_dot_underscore s = filter (\<lambda>c. c \<noteq> CHR ''.'' \<and> c \<noteq> CHR ''_'') s"

definition clean_reference :: "string \<Rightarrow> string" where
  "clean_reference s = remove_dot_underscore (remove_whitespace s)"

text \<open>
  Two header strings differ only in whitespace, \<open>.\<close> and \<open>_\<close> when one is obtained from
  the other by inserting such characters, at any positions, on either side.
\<close>

definition removable :: "char \<Rightarrow> bool" where
  "removable c = (py_isspace c \<or> c = CHR ''.'' \<or> c = CHR ''_'')"

inductive differ_only :: "string \<Rightarrow> string \<Rightarrow> bool" where
  same: "differ_only s s"
| extra_left: "removable c \<Longrightarrow> differ_only (xs @ ys) t \<Longrightarrow> differ_only (xs @ c # ys) t"
| extra_right: "removable c \<Longrightarrow> differ_only s (xs @ ys) \<Longrightarrow> differ_only s (xs @ c # ys)"

section \<open>Python floats\<close>

text \<open>
  A \<open>float\<close> is an IEEE 754 binary64 value: a finite one is identified with the rational
  number it denotes (the two zeros are identified), the others are the infinities and NaN.
\<close>

datatype pyfloat = Finite rat | PosInf | NegInf | NotANumber

function bit_length :: "int \<Rightarrow> int" where
  "bit_length n = (if n \<le> 0 then 0 else 1 + bit_length (n div 2))"
  by pat_completeness auto
termination
  by (relation "measure nat") auto

definition pow2 :: "int \<Rightarrow> rat" where
  "pow2 e = (if 0 \<le> e then 2 ^ nat e else 1 / 2 ^ nat (- e))"

definition pow10 :: "int \<Rightarrow> rat" where
  "pow10 e = (if 0 \<le> e then 10 ^ nat e else 1 / 10 ^ nat (- e))"

definition round_half_even :: "rat \<Rightarrow> int" where
  "round_half_even q =
     (let f = \<lfloor>q\<rfloor>; r = q - of_int f
      in if r < 1 / 2 then f else if 1 / 2 < r then f + 1 else if even f then f else f + 1)"

text \<open>
  \<open>binary64 q\<close> rounds a non-negative rational to the nearest binary64 value, ties to
  even: 53 significant bits, least exponent \<open>-1022\<close> (below it the spacing stays
  \<open>2^-1074\<close>), and a result of \<open>2^1024\<close> or more is infinity.
\<close>

definition binary64 :: "rat \<Rightarrow> pyfloat" where
  "binary64 q =
     (if q = 0 then Finite 0
      else
        let (a, b) = quotient_of q;
            e0 = bit_length a - bit_length b;
            e = (if pow2 e0 \<le> q then e0 else e0 - 1);
            ulp = pow2 (max e (- 1022) - 52);
            v = of_int (round_half_even (q / ulp)) * ulp
        in if pow2 1024 \<le> v then PosInf else Finite v)"

fun negate :: "pyfloat \<Rightarrow> pyfloat" where
  "negate (Finite q) = Finite (- q)"
| "negate PosInf = NegInf"
| "negate NegInf = PosInf"
| "negate NotANumber = NotANumber"

text \<open>
  \<open>float(s)\<close> for a \<open>str\<close>, as CPython computes it. Characters from U+007F on are first
  turned into a space when they are whitespace and into \<open>?\<close> (ending the text) otherwise;
  C whitespace is stripped at both ends; underscores are accepted between two digits
  only; what is left must be, after an optional sign, \<open>inf\<close>, \<open>infinity\<close> or \<open>nan\<close> in any
  case, or a decimal numeral with an optional fraction and exponent. \<open>None\<close> stands for
  the \<open>ValueError\<close>.
\<close>

definition is_digit :: "char \<Rightarrow> bool" where
  "is_digit c = (let n = (of_char c :: nat) in 48 \<le> n \<and> n \<le> 57)"

definition c_isspace :: "char \<Rightarrow> bool" where
  "c_isspace c = (let n = (of_char c :: nat) in (9 \<le> n \<and> n \<le> 13) \<or> n = 32)"

definition to_lower :: "char \<Rightarrow> char" where
  "to_lower c =
     (let n = (of_char c :: nat) in if 65 \<le> n \<and> n \<le> 90 then char_of (n + 32) else c)"

fun to_ascii :: "string \<Rightarrow> string" where
  "to_ascii [] = []"
| "to_ascii (c # cs) =
     (if (of_char c :: nat) < 127 then c # to_ascii cs
      else if py_isspace c then CHR '' '' # to_ascii cs
      else [CHR ''?''])"

definition c_strip :: "string \<Rightarrow> string" where
  "c_strip s = rev (dropWhile c_isspace (rev (dropWhile c_isspace s)))"

fun strip_underscores :: "char \<Rightarrow> string \<Rightarrow> string option" where
  "strip_underscores prev [] = (if prev = CHR ''_'' then None else Some [])"
| "strip_underscores prev (c # cs) =
     (if c = CHR ''_'' then (if is_digit prev then strip_underscores c cs else None)
      else if prev = CHR ''_'' \<and> \<not> is_digit c then None
      else map_option ((#) c) (strip_underscores c cs))"

definition int_of_digits :: "string \<Rightarrow> int" where
  "int_of_digits ds = foldl (\<lambda>n d. 10 * n + (of_char d - 48)) 0 ds"

definition parse_exponent :: "string \<Rightarrow> int option" where
  "parse_exponent r =
     (case r of
        [] \<Rightarrow> Some 0
      | c # r1 \<Rightarrow>
          if c = CHR ''e'' \<or> c = CHR ''E'' then
            let (neg, r2) =
                  (case r1 of
                     [] \<Rightarrow> (False, r1)
                   | s # r' \<Rightarrow> if s = CHR ''-'' then (True, r')
                              else if s = CHR ''+'' then (False, r') else (False, r1))
            in if r2 \<noteq> [] \<and> list_all is_digit r2
               then Some (if neg then - int_of_digits r2 else int_of_digits r2)
               else None
          else None)"

definition parse_unsigned :: "string \<Rightarrow> pyfloat option" where
  "parse_unsigned cs =
     (let low = map to_lower cs
      in if low = ''inf'' \<or> low = ''infinity'' then Some PosInf
         else if low = ''nan'' then Some NotANumber
         else
           let ip = takeWhile is_digit cs;
               r = dropWhile is_digit cs;
               (fp, r) =
                 (case r of
                    [] \<Rightarrow> ([], r)
                  | c # r' \<Rightarrow> if c = CHR ''.''
                              then (takeWhile is_digit r', dropWhile is_digit r') else ([], r))
           in if ip = [] \<and> fp = [] then None
              else (case parse_exponent r of
                      None \<Rightarrow> None
                    | Some ex \<Rightarrow>
                        Some (binary64 (of_int (int_of_digits (ip @ fp))
                                        * pow10 (ex - int (length fp))))))"

definition parse_float :: "string \<Rightarrow> pyfloat option" where
  "parse_float s =
     (let cs = c_strip (to_ascii s)
      in case (if CHR ''_'' \<in> set cs then strip_underscores (CHR 0x00) cs else Some cs) of
           None \<Rightarrow> None
         | Some [] \<Rightarrow> None
         | Some (c # r) \<Rightarrow>
             if c = CHR ''-'' then map_option negate (parse_unsigned r)
             else if c = CHR ''+'' then parse_unsigned r
             else parse_unsigned (c # r))"

section \<open>Exceptions\<close>

text \<open>
  The exceptions that the task can meet, one constructor per raising site, and the
  classes the \<open>except\<close> clauses of the source test for.
\<close>

datatype exn =
    UnsupportedFileFormat \<comment> \<open>\<open>ValueError("Unsupported file format")\<close>\<close>
  | MissingColumns "string set" \<comment> \<open>\<open>ValueError("Missing columns after cleaning: ...")\<close>\<close>
  | CouldNotConvert string \<comment> \<open>\<open>ValueError\<close> of \<open>float\<close> on a text that is no numeral\<close>
  | CannotConvertNaN \<comment> \<open>\<open>ValueError\<close> of \<open>int\<close> on NaN\<close>
  | CannotConvertInfinity \<comment> \<open>\<open>OverflowError\<close> of \<open>int\<close> on an infinity\<close>
  | AmbiguousTruthValue \<comment> \<open>\<open>ValueError\<close> of \<open>bool\<close> on a \<open>Series\<close>\<close>
  | KeyError string
  | TypeError
  | ReaderError string \<comment> \<open>whatever the pandas reader raises on a file it cannot parse\<close>

fun is_ValueError :: "exn \<Rightarrow> bool" where
  "is_ValueError UnsupportedFileFormat = True"
| "is_ValueError (MissingColumns _) = True"
| "is_ValueError (CouldNotConvert _) = True"
| "is_ValueError CannotConvertNaN = True"
| "is_ValueError AmbiguousTruthValue = True"
| "is_ValueError _ = False"

fun is_OverflowError :: "exn \<Rightarrow> bool" where
  "is_OverflowError CannotConvertInfinity = True"
| "is_OverflowError _ = False"

fun is_KeyError :: "exn \<Rightarrow> bool" where
  "is_KeyError (KeyError _) = True"
| "is_KeyError _ = False"

definition py_float :: "string \<Rightarrow> exn + pyfloat" where
  "py_float s = (case parse_float s of None \<Rightarrow> Inl (CouldNotConvert s) | Some f \<Rightarrow> Inr f)"

text \<open>\<open>int(f)\<close> for a float: truncation towards zero.\<close>

fun py_int :: "pyfloat \<Rightarrow> exn + int" where
  "py_int (Finite q) = Inr (if 0 \<le> q then \<lfloor>q\<rfloor> else \<lceil>q\<rceil>)"
| "py_int PosInf = Inl CannotConvertInfinity"
| "py_int NegInf = Inl CannotConvertInfinity"
| "py_int NotANumber = Inl CannotConvertNaN"

section \<open>The parsed table\<close>

text \<open>
  Both readers are called with \<open>dtype=str\<close>: a cell is a \<open>str\<close> or the missing value
  NaN. The table has a list of column labels (which cleaning and renaming may make
  equal) and a list of rows, each with one cell per column. \<open>row.get(key)\<close> is \<open>None\<close>
  when no column has the label, the cell when one has, and a \<open>Series\<close> of the cells
  when several have.
\<close>

datatype cell = NA | Str string

text \<open>
  How the readers turn the text of a file cell into a cell: with \<open>dtype=str\<close> and the
  default NA handling, a text among the default NA values (the empty text first of
  all) is delivered as NaN, and any other text as itself.
\<close>

definition default_na_values :: "string list" where
  "default_na_values =
     ['''', ''#N/A'', ''#N/A N/A'', ''#NA'', ''-1.#IND'', ''-1.#QNAN'', ''-NaN'', ''-nan'',
      ''1.#IND'', ''1.#QNAN'', ''<NA>'', ''N/A'', ''NA'', ''NULL'', ''NaN'', ''None'',
      ''n/a'', ''nan'', ''null'']"

definition read_cell :: "string \<Rightarrow> cell" where
  "read_cell t = (if t \<in> set default_na_values then NA else Str t)"

datatype rowval = PyNone | Scalar cell | SeriesOf "cell list"

record dataframe =
  df_columns :: "string list"
  df_rows :: "cell list list"

definition row_get :: "string list \<Rightarrow> cell list \<Rightarrow> string \<Rightarrow> rowval" where
  "row_get cols row key =
     (case map snd (filter (\<lambda>(c, v). c = key) (zip cols row)) of
        [] \<Rightarrow> PyNone
      | [v] \<Rightarrow> Scalar v
      | vs \<Rightarrow> SeriesOf vs)"

text \<open>
  The truth value of \<open>pd.isna(val)\<close> and of \<open>pd.notnull(val)\<close>: on a \<open>Series\<close> both
  return a \<open>Series\<close>, whose truth value raises.
\<close>

fun isna :: "rowval \<Rightarrow> exn + bool" where
  "isna PyNone = Inr True"
| "isna (Scalar NA) = Inr True"
| "isna (Scalar (Str s)) = Inr False"
| "isna (SeriesOf vs) = Inl AmbiguousTruthValue"

fun notnull :: "rowval \<Rightarrow> exn + bool" where
  "notnull PyNone = Inr False"
| "notnull (Scalar NA) = Inr False"
| "notnull (Scalar (Str s)) = Inr True"
| "notnull (SeriesOf vs) = Inl AmbiguousTruthValue"

fun float_of :: "rowval \<Rightarrow> exn + pyfloat" where
  "float_of PyNone = Inl TypeError"
| "float_of (Scalar NA) = Inr NotANumber"
| "float_of (Scalar (Str s)) = py_float s"
| "float_of (SeriesOf vs) = Inl TypeError"

section \<open>Log records and effects\<close>

text \<open>
  The records of level WARNING and ERROR that the module writes, one constructor per
  logging site, with the values the message is formatted from. The set of missing
  columns is formatted in the iteration order of a Python set, which the model leaves
  open by keeping the set.
\<close>

datatype log_record =
    ConvertError rowval exn \<comment> \<open>Error converting value to int\<close>
  | UnsupportedFormatLog string \<comment> \<open>Unsupported file format\<close>
  | MissingColumnsLog string "string set" \<comment> \<open>Missing columns in file\<close>
  | BankCodeNotFound string \<comment> \<open>Bank code for ... not found\<close>
  | RowKeyError nat "cell list" exn \<comment> \<open>Missing key in row\<close>
  | RowError nat "cell list" exn \<comment> \<open>Unexpected error processing row\<close>
  | FileError string exn \<comment> \<open>Error processing file\<close>

text \<open>
  A computation that writes log records and then returns or raises is a pair of the
  records written and the outcome; \<open>and_then\<close> runs the next step after a return and
  stops at a raise.
\<close>

definition and_then :: "'l list \<times> (exn + 'a) \<Rightarrow> ('a \<Rightarrow> 'l list \<times> (exn + 'b)) \<Rightarrow> 'l list \<times> (exn + 'b)" where
  "and_then m f =
     (case m of
        (l, Inl e) \<Rightarrow> (l, Inl e)
      | (l, Inr a) \<Rightarrow> (case f a of (l', r) \<Rightarrow> (l @ l', r)))"

section \<open>Integer coercion\<close>

text \<open>
  \<^verbatim>\<open>
  def convert_to_int(val):
      try:
          if pd.isna(val) or val == '':
              return None
          return int(float(val))
      except (ValueError, OverflowError) as e:
          logger.error(f"Error converting value to int: {val}. Error: {e}")
          return None
  \<close>
  An exception of another class would leave the function: the outcome is a sum.
\<close>

definition convert_to_int_try :: "rowval \<Rightarrow> exn + int option" where
  "convert_to_int_try val =
     (case isna val of
        Inl e \<Rightarrow> Inl e
      | Inr na \<Rightarrow>
          if na \<or> val = Scalar (Str '''') then Inr None
          else (case float_of val of
                  Inl e \<Rightarrow> Inl e
                | Inr f \<Rightarrow> (case py_int f of Inl e \<Rightarrow> Inl e | Inr i \<Rightarrow> Inr (Some i))))"

definition convert_to_int :: "rowval \<Rightarrow> log_record list \<times> (exn + int option)" where
  "convert_to_int val =
     (case convert_to_int_try val of
        Inr r \<Rightarrow> ([], Inr r)
      | Inl e \<Rightarrow>
          if is_ValueError e \<or> is_OverflowError e then ([ConvertError val e], Inr None)
          else ([], Inl e))"

section \<open>Record extraction\<close>

text \<open>
  \<open>transaction_data\<close> is a \<open>dict\<close> from field names to values: an association list in
  insertion order. \<open>dict.update\<close> replaces the value of a key that is there and appends
  a new key; \<open>d[key]\<close> raises \<open>KeyError\<close> on a key that is not there.
\<close>

datatype 'd pyobj = IntValue int | NoneValue | FloatValue pyfloat | DateValue 'd

type_synonym 'd transaction_data = "(string \<times> 'd pyobj) list"

definition dict_update :: "('k \<times> 'v) list \<Rightarrow> ('k \<times> 'v) list \<Rightarrow> ('k \<times> 'v) list" where
  "dict_update d kvs = foldl (\<lambda>d (k, v). AList.update k v d) d kvs"

definition dict_get :: "(string \<times> 'v) list \<Rightarrow> string \<Rightarrow> exn + 'v" where
  "dict_get d key = (case map_of d key of None \<Rightarrow> Inl (KeyError key) | Some v \<Rightarrow> Inr v)"

fun int_or_none :: "int option \<Rightarrow> 'd pyobj" where
  "int_or_none None = NoneValue"
| "int_or_none (Some i) = IntValue i"

text \<open>The truth value of an object in a condition: \<open>None\<close> and zero are false.\<close>

fun truthy :: "'d pyobj \<Rightarrow> bool" where
  "truthy NoneValue = False"
| "truthy (IntValue i) = (i \<noteq> 0)"
| "truthy (FloatValue f) = (f \<noteq> Finite 0)"
| "truthy (DateValue d) = True"

text \<open>\<open>float(x) if pd.notnull(x) else 0.0\<close>\<close>

definition amount_of :: "rowval \<Rightarrow> exn + pyfloat" where
  "amount_of x =
     (case notnull x of
        Inl e \<Rightarrow> Inl e
      | Inr present \<Rightarrow> if present then float_of x else Inr (Finite 0))"

text \<open>
  The dictionary displays passed to \<open>transaction_data.update\<close>, their values computed
  in the order of the source. \<open>to_datetime\<close> stands for
  \<open>pd.to_datetime(..., errors='coerce')\<close>, which returns a date or the null date.
\<close>

definition booking_fields ::
  "(rowval \<Rightarrow> 'd) \<Rightarrow> (string \<Rightarrow> rowval) \<Rightarrow> log_record list \<times> (exn + 'd transaction_data)" where
  "booking_fields to_datetime get =
     (let transaction_date = to_datetime (get ''transaction_date'');
          credited_date = to_datetime (get ''credited_date'')
      in and_then ([], amount_of (get ''booking_amount'')) (\<lambda>booking_amount.
         and_then (convert_to_int (get ''irctc_order_no'')) (\<lambda>irctc_order_no.
         and_then (convert_to_int (get ''bank_booking_ref_no'')) (\<lambda>bank_booking_ref_no.
           ([], Inr [(''transaction_date'', DateValue transaction_date),
                     (''credited_date'', DateValue credited_date),
                     (''booking_amount'', FloatValue booking_amount),
                     (''irctc_order_no'', int_or_none irctc_order_no),
                     (''bank_booking_ref_no'', int_or_none bank_booking_ref_no)])))))"

definition refund_fields ::
  "(rowval \<Rightarrow> 'd) \<Rightarrow> (string \<Rightarrow> rowval) \<Rightarrow> log_record list \<times> (exn + 'd transaction_data)" where
  "refund_fields to_datetime get =
     (let refund_date = to_datetime (get ''refund_date'')
      in and_then (convert_to_int (get ''bank_booking_ref_no'')) (\<lambda>bank_booking_ref_no.
         and_then (convert_to_int (get ''bank_refund_ref_no'')) (\<lambda>bank_refund_ref_no.
         and_then ([], amount_of (get ''refund_amount'')) (\<lambda>refund_amount.
         let debited_date = to_datetime (get ''debited_date'')
         in and_then (convert_to_int (get ''irctc_order_no'')) (\<lambda>irctc_order_no.
           ([], Inr [(''refund_date'', DateValue refund_date),
                     (''bank_booking_ref_no'', int_or_none bank_booking_ref_no),
                     (''bank_refund_ref_no'', int_or_none bank_refund_ref_no),
                     (''refund_amount'', FloatValue refund_amount),
                     (''debited_date'', DateValue debited_date),
                     (''irctc_order_no'', int_or_none irctc_order_no)]))))))"

text \<open>
  \<open>d[a] and d[b] is not None\<close>: the second operand is evaluated only when the first is
  true.
\<close>

definition valid_for_bulk :: "'d transaction_data \<Rightarrow> string \<Rightarrow> string \<Rightarrow> exn + bool" where
  "valid_for_bulk transaction_data a b =
     (case dict_get transaction_data a of
        Inl e \<Rightarrow> Inl e
      | Inr x \<Rightarrow>
          if truthy x
          then (case dict_get transaction_data b of
                  Inl e \<Rightarrow> Inl e
                | Inr y \<Rightarrow> Inr (y \<noteq> NoneValue))
          else Inr False)"

text \<open>
  The body of the \<open>try\<close> of one row, on the two lists built so far: it returns them,
  one of them with the row's record appended when the row is valid, or raises with
  the lists as they were.
\<close>

definition row_try ::
  "(rowval \<Rightarrow> 'd) \<Rightarrow> int \<Rightarrow> string \<Rightarrow> (string \<Rightarrow> rowval)
    \<Rightarrow> 'd transaction_data list \<times> 'd transaction_data list
    \<Rightarrow> log_record list \<times> (exn + 'd transaction_data list \<times> 'd transaction_data list)" where
  "row_try to_datetime bank_code transaction_type get bulk =
     (case bulk of (bulk_data_bookings, bulk_data_refunds) \<Rightarrow>
      let transaction_data = [(''bank_code'', IntValue bank_code)]
      in if transaction_type = ''booking'' then
           and_then (booking_fields to_datetime get) (\<lambda>fields.
             let transaction_data = dict_update transaction_data fields
             in and_then ([], valid_for_bulk transaction_data ''irctc_order_no'' ''bank_booking_ref_no'')
                  (\<lambda>valid. ([], Inr (if valid
                                       then (bulk_data_bookings @ [transaction_data], bulk_data_refunds)
                                       else (bulk_data_bookings, bulk_data_refunds)))))
         else if transaction_type = ''refund'' then
           and_then (refund_fields to_datetime get) (\<lambda>fields.
             let transaction_data = dict_update transaction_data fields
             in and_then ([], valid_for_bulk transaction_data ''irctc_order_no'' ''bank_refund_ref_no'')
                  (\<lambda>valid. ([], Inr (if valid
                                       then (bulk_data_bookings, bulk_data_refunds @ [transaction_data])
                                       else (bulk_data_bookings, bulk_data_refunds)))))
         else ([], Inr (bulk_data_bookings, bulk_data_refunds)))"

text \<open>
  One iteration of \<open>for index, row in df.iterrows()\<close>, with its two \<open>except\<close> clauses,
  on the state of the loop: the two lists and the log records written so far.
\<close>

definition row_step ::
  "(rowval \<Rightarrow> 'd) \<Rightarrow> int \<Rightarrow> string \<Rightarrow> string list \<Rightarrow> nat \<Rightarrow> cell list
    \<Rightarrow> 'd transaction_data list \<times> 'd transaction_data list \<times> log_record list
    \<Rightarrow> 'd transaction_data list \<times> 'd transaction_data list \<times> log_record list" where
  "row_step to_datetime bank_code transaction_type cols index row state =
     (case state of (bulk_data_bookings, bulk_data_refunds, logs) \<Rightarrow>
      (case row_try to_datetime bank_code transaction_type (row_get cols row)
              (bulk_data_bookings, bulk_data_refunds) of
         (l, Inr (bookings, refunds)) \<Rightarrow> (bookings, refunds, logs @ l)
       | (l, Inl e) \<Rightarrow>
           (bulk_data_bookings, bulk_data_refunds,
            logs @ l @ [if is_KeyError e then RowKeyError index row e else RowError index row e])))"

fun iterrows ::
  "(rowval \<Rightarrow> 'd) \<Rightarrow> int \<Rightarrow> string \<Rightarrow> string list \<Rightarrow> nat \<Rightarrow> cell list list
    \<Rightarrow> 'd transaction_data list \<times> 'd transaction_data list \<times> log_record list
    \<Rightarrow> 'd transaction_data list \<times> 'd transaction_data list \<times> log_record list" where
  "iterrows to_datetime bank_code transaction_type cols index [] state = state"
| "iterrows to_datetime bank_code transaction_type cols index (row # rows) state =
     iterrows to_datetime bank_code transaction_type cols (Suc index) rows
       (row_step to_datetime bank_code transaction_type cols index row state)"

text \<open>
  The records one row contributes: what its iteration appends to two empty lists, and
  nothing when it raises.
\<close>

definition row_records ::
  "(rowval \<Rightarrow> 'd) \<Rightarrow> int \<Rightarrow> string \<Rightarrow> string list \<Rightarrow> cell list
    \<Rightarrow> 'd transaction_data list \<times> 'd transaction_data list" where
  "row_records to_datetime bank_code transaction_type cols row =
     (case snd (row_try to_datetime bank_code transaction_type (row_get cols row) ([], [])) of
        Inr bulk \<Rightarrow> bulk
      | Inl e \<Rightarrow> ([], []))"

text \<open>The log records one iteration writes.\<close>

definition row_logs ::
  "(rowval \<Rightarrow> 'd) \<Rightarrow> int \<Rightarrow> string \<Rightarrow> string list \<Rightarrow> nat \<Rightarrow> cell list \<Rightarrow> log_record list" where
  "row_logs to_datetime bank_code transaction_type cols index row =
     snd (snd (row_step to_datetime bank_code transaction_type cols index row ([], [], [])))"

text \<open>The log records an iteration of the loop can write.\<close>

definition is_row_log :: "log_record \<Rightarrow> bool" where
  "is_row_log x = (case x of ConvertError v e \<Rightarrow> True | RowKeyError i r e \<Rightarrow> True
                   | RowError i r e \<Rightarrow> True | _ \<Rightarrow> False)"

section \<open>Configuration\<close>

text \<open>
  The two module-level tables. \<open>BANK_MAPPINGS\<close> gives, for a bank and a transaction
  type, the required raw column labels and the mapping from cleaned labels to field
  names (a dictionary display, kept as the list of its items).
\<close>

record schema =
  columns :: "string list"
  column_mapping :: "(string \<times> string) list"

record module_globals =
  bank_code_mapping :: "string \<rightharpoonup> int"
  bank_mappings :: "string \<rightharpoonup> (string \<rightharpoonup> schema)"

definition BANK_CODE_MAPPING :: "string \<rightharpoonup> int" where
  "BANK_CODE_MAPPING = [''hdfc'' \<mapsto> 101, ''icici'' \<mapsto> 102, ''karur_vysya'' \<mapsto> 40]"

definition karur_vysya_booking :: schema where
  "karur_vysya_booking =
     \<lparr>columns = [''TXN DATE'', ''IRCTC ORDER NO.'', ''BANK BOOKING REF.NO.'',
                 ''BOOKING AMOUNT'', ''CREDITED ON''],
      column_mapping = [(''IRCTCORDERNO'', ''irctc_order_no''),
                        (''BANKBOOKINGREFNO'', ''bank_booking_ref_no''),
                        (''BOOKINGAMOUNT'', ''booking_amount''),
                        (''TXNDATE'', ''transaction_date''),
                        (''CREDITEDON'', ''credited_date'')]\<rparr>"

definition karur_vysya_refund :: schema where
  "karur_vysya_refund =
     \<lparr>columns = [''REFUND DATE'', ''IRCTC ORDER NO.'', ''BANK BOOKING REF.NO.'',
                 ''BANK REFUND REF.NO.'', ''REFUND AMOUNT'', ''DEBITED ON''],
      column_mapping = [(''IRCTCORDERNO'', ''irctc_order_no''),
                        (''REFUNDAMOUNT'', ''refund_amount''),
                        (''DEBITEDON'', ''debited_date''),
                        (''REFUNDDATE'', ''refund_date''),
                        (''BANKBOOKINGREFNO'', ''bank_booking_ref_no''),
                        (''BANKREFUNDREFNO'', ''bank_refund_ref_no'')]\<rparr>"

definition BANK_MAPPINGS :: "string \<rightharpoonup> (string \<rightharpoonup> schema)" where
  "BANK_MAPPINGS =
     [''karur_vysya'' \<mapsto> [''booking'' \<mapsto> karur_vysya_booking, ''refund'' \<mapsto> karur_vysya_refund]]"

definition shipped :: module_globals where
  "shipped = \<lparr>bank_code_mapping = BANK_CODE_MAPPING, bank_mappings = BANK_MAPPINGS\<rparr>"

text \<open>\<open>BANK_MAPPINGS[bank_name][transaction_type]\<close>: each subscript raises on a missing key.\<close>

definition schema_lookup :: "module_globals \<Rightarrow> string \<Rightarrow> string \<Rightarrow> exn + schema" where
  "schema_lookup g bank_name transaction_type =
     (case bank_mappings g bank_name of
        None \<Rightarrow> Inl (KeyError bank_name)
      | Some by_type \<Rightarrow>
          (case by_type transaction_type of
             None \<Rightarrow> Inl (KeyError transaction_type)
           | Some sch \<Rightarrow> Inr sch))"

text \<open>
  A dictionary comprehension over items: a later item replaces an earlier one with the
  same key. \<open>df.rename(columns=m)\<close> replaces each label that is a key of \<open>m\<close>.
\<close>

definition dict_of_items :: "('k \<times> 'v) list \<Rightarrow> ('k \<rightharpoonup> 'v)" where
  "dict_of_items items = foldl (\<lambda>m (k, v). m(k \<mapsto> v)) Map.empty items"

definition rename_columns :: "(string \<rightharpoonup> string) \<Rightarrow> string list \<Rightarrow> string list" where
  "rename_columns m cols = map (\<lambda>c. case m c of None \<Rightarrow> c | Some v \<Rightarrow> v) cols"

section \<open>The task\<close>

text \<open>
  The pandas functions the task calls are parameters: the two readers, from the bytes
  of the file to a table or an exception, and the permissive date parser.
\<close>

record ('b, 'd) pandas =
  read_excel :: "'b \<Rightarrow> exn + dataframe"
  read_csv :: "'b \<Rightarrow> exn + dataframe"
  to_datetime :: "rowval \<Rightarrow> 'd"

text \<open>
  What the task does to the world outside: the log records it writes and the calls of
  the persistence layer, \<open>BookingTransaction.bulk_create_booking_transactions\<close> and
  \<open>RefundTransaction.bulk_create_refund_transactions\<close>, with the list passed.
\<close>

datatype 'd effect =
    Logged log_record
  | BulkCreateBookings "'d transaction_data list"
  | BulkCreateRefunds "'d transaction_data list"

definition read_file :: "('b, 'd) pandas \<Rightarrow> string \<Rightarrow> 'b \<Rightarrow> 'd effect list \<times> (exn + dataframe)" where
  "read_file pd file_format file_content =
     (if file_format = ''excel'' then ([], read_excel pd file_content)
      else if file_format = ''csv'' then ([], read_csv pd file_content)
      else ([Logged (UnsupportedFormatLog file_format)], Inl UnsupportedFileFormat))"

text \<open>The body of the outer \<open>try\<close> of \<open>process_uploaded_files\<close>.\<close>

definition task_body ::
  "('b, 'd) pandas \<Rightarrow> module_globals \<Rightarrow> 'b \<Rightarrow> string \<Rightarrow> string \<Rightarrow> string \<Rightarrow> string
    \<Rightarrow> 'd effect list \<times> (exn + unit)" where
  "task_body pd g file_content file_name bank_name transaction_type file_format =
     and_then (read_file pd file_format file_content) (\<lambda>df.
     let cols = map clean_column_name (df_columns df)
     in and_then ([], schema_lookup g bank_name transaction_type) (\<lambda>sch.
     let expected_columns = map clean_column_name (columns sch);
         missing_columns = set expected_columns - set cols
     in if missing_columns \<noteq> {}
        then ([Logged (MissingColumnsLog file_name missing_columns)],
              Inl (MissingColumns missing_columns))
        else
          and_then ([], schema_lookup g bank_name transaction_type) (\<lambda>sch.
          let mapping = dict_of_items (map (\<lambda>(k, v). (clean_column_name k, v)) (column_mapping sch));
              cols = rename_columns mapping cols
          in case bank_code_mapping g bank_name of
               None \<Rightarrow> ([Logged (BankCodeNotFound bank_name)], Inr ())
             | Some bank_code \<Rightarrow>
                 (case iterrows (to_datetime pd) bank_code transaction_type cols 0 (df_rows df)
                         ([], [], []) of
                    (bulk_data_bookings, bulk_data_refunds, logs) \<Rightarrow>
                      (map Logged logs
                       @ (if bulk_data_bookings \<noteq> [] then [BulkCreateBookings bulk_data_bookings] else [])
                       @ (if bulk_data_refunds \<noteq> [] then [BulkCreateRefunds bulk_data_refunds] else []),
                       Inr ())))))"

text \<open>The effects of one invocation: those of the body, then the file-level handler.\<close>

definition task_effects ::
  "('b, 'd) pandas \<Rightarrow> module_globals \<Rightarrow> 'b \<Rightarrow> string \<Rightarrow> string \<Rightarrow> string \<Rightarrow> string
    \<Rightarrow> 'd effect list" where
  "task_effects pd g file_content file_name bank_name transaction_type file_format =
     (case task_body pd g file_content file_name bank_name transaction_type file_format of
        (effects, Inr _) \<Rightarrow> effects
      | (effects, Inl e) \<Rightarrow> effects @ [Logged (FileError file_name e)])"

text \<open>
  The state the task runs in: the module's tables, and the log sink and persistence
  layer as the history of the effects they have received. An invocation reads the
  tables and appends its effects.
\<close>

record 'd world =
  module_state :: module_globals
  history :: "'d effect list"

definition process_uploaded_files ::
  "('b, 'd) pandas \<Rightarrow> 'b \<Rightarrow> string \<Rightarrow> string \<Rightarrow> string \<Rightarrow> string \<Rightarrow> 'd world \<Rightarrow> 'd world" where
  "process_uploaded_files pd file_content file_name bank_name transaction_type file_format w =
     w\<lparr>history := history w
          @ task_effects pd (module_state w) file_content file_name bank_name transaction_type file_format\<rparr>"

text \<open>The record batches among some effects: the lists handed to the persistence layer.\<close>

fun bookings_of :: "'d effect list \<Rightarrow> 'd transaction_data list" where
  "bookings_of [] = []"
| "bookings_of (BulkCreateBookings bs # es) = bs @ bookings_of es"
| "bookings_of (e # es) = bookings_of es"

fun refunds_of :: "'d effect list \<Rightarrow> 'd transaction_data list" where
  "refunds_of [] = []"
| "refunds_of (BulkCreateRefunds rs # es) = rs @ refunds_of es"
| "refunds_of (e # es) = refunds_of es"
text \<open>
  Two local variables of the task as functions of the schema and the parsed table: the
  set \<open>missing_columns\<close>, and the column labels of the table after cleaning and renaming.
\<close>

definition missing_columns :: "schema \<Rightarrow> dataframe \<Rightarrow> string set" where
  "missing_columns sch df =
     set (map clean_column_name (columns sch)) - set (map clean_column_name (df_columns df))"

definition normalized_columns :: "schema \<Rightarrow> dataframe \<Rightarrow> string list" where
  "normalized_columns sch df =
     rename_columns
       (dict_of_items (map (\<lambda>(k, v). (clean_column_name k, v)) (column_mapping sch)))
       (map clean_column_name (df_columns df))"

section \<open>Example inputs\<close>

text \<open>
  A pandas for examples: the content of a file is the table it holds, which the CSV
  reader delivers (the Excel reader rejects the file), and the date parser forgets its
  argument. A Karur Vysya booking table, a table that lacks required columns, and
  refund rows under the canonical column names, one with an amount that is not numeric.
\<close>

definition table_reader :: "(dataframe, unit) pandas" where
  "table_reader =
     \<lparr>read_excel = (\<lambda>b. Inl (ReaderError ''not a workbook'')),
      read_csv = (\<lambda>b. Inr b),
      to_datetime = (\<lambda>v. ())\<rparr>"

definition booking_table :: dataframe where
  "booking_table =
     \<lparr>df_columns = [''TXN DATE'', ''IRCTC ORDER NO.'', ''BANK BOOKING REF.NO.'',
                    ''BOOKING AMOUNT'', ''CREDITED ON''],
      df_rows = [map read_cell [''2024-01-05'', ''12345'', ''678.0'', '''', ''2024-01-06'']]\<rparr>"

definition refund_columns :: "string list" where
  "refund_columns = [''irctc_order_no'', ''bank_refund_ref_no'', ''refund_amount'']"

definition good_refund_row :: "cell list" where
  "good_refund_row = [Str ''12345'', Str ''678.0'', NA]"

definition bad_refund_row :: "cell list" where
  "bad_refund_row = [Str ''12345'', Str ''678.0'', Str ''abc'']"

definition incomplete_table :: dataframe where
  "incomplete_table =
     \<lparr>df_columns = [''Txn Date'', ''IRCTC ORDER NO'', ''BOOKING_AMOUNT''],
      df_rows = [[Str ''2024-01-05'', Str ''12345'', Str ''10.5'']]\<rparr>"

definition refund_table :: "cell list list \<Rightarrow> dataframe" where
  "refund_table rows =
     \<lparr>df_columns = [''REFUND DATE'', ''IRCTC ORDER NO.'', ''BANK BOOKING REF.NO.'',
                    ''BANK REFUND REF.NO.'', ''REFUND AMOUNT'', ''DEBITED ON''],
      df_rows = rows\<rparr>"

definition good_refund_cells :: "cell list" where
  "good_refund_cells = map read_cell [''2024-02-01'', ''12345'', ''678.0'', ''678.0'', '''', ''2024-02-02'']"

definition bad_refund_cells :: "cell list" where
  "bad_refund_cells = map read_cell [''2024-02-01'', ''12345'', ''678.0'', ''678.0'', ''abc'', ''2024-02-02'']"




lemma concat_split_from:
  "concat (split_from cur s) = cur @ filter (\<lambda>c. \<not> py_isspace c) s"
  by (induction s arbitrary: cur) auto

lemma concat_nonempty_parts: "concat (filter (\<lambda>part. part \<noteq> []) parts) = concat parts"
  by (induction parts) auto

lemma dropWhile_no_match: "\<forall>x\<in>set xs. \<not> P x \<Longrightarrow> dropWhile P xs = xs"
  by (cases xs) auto

lemma py_strip_no_space: "\<forall>c\<in>set s. \<not> py_isspace c \<Longrightarrow> py_strip s = s"
  by (simp add: py_strip_def dropWhile_no_match)

lemma clean_column_name_filter:
  "clean_column_name s = filter (\<lambda>c. \<not> removable c) s"
proof -
  have "concat (filter (\<lambda>part. part \<noteq> []) (py_split s)) = filter (\<lambda>c. \<not> py_isspace c) s"
    by (simp add: concat_nonempty_parts py_split_def concat_split_from)
  moreover have "py_strip (filter (\<lambda>char. char \<notin> set [CHR ''.'', CHR ''_'']) (filter (\<lambda>c. \<not> py_isspace c) s))
      = filter (\<lambda>char. char \<notin> set [CHR ''.'', CHR ''_'']) (filter (\<lambda>c. \<not> py_isspace c) s)"
    by (rule py_strip_no_space) simp
  ultimately show ?thesis
    by (simp add: clean_column_name_def removable_def)
qed

lemma differ_only_clean: "differ_only s t \<Longrightarrow> clean_column_name s = clean_column_name t"
  by (induction rule: differ_only.induct) (simp_all add: clean_column_name_filter)

text \<open>
  Claim C5. Header cleaning equals the reference definition: all whitespace and all
  occurrences of \<open>.\<close> and \<open>_\<close> are removed, and every other character stays, in order
  and case. So two headers that differ only in such characters have the same cleaned
  form; \<open>IRCTC ORDER NO.\<close> and \<open>IRCTCORDERNO\<close> both clean to \<open>IRCTCORDERNO\<close>.
\<close>

theorem clean_column_name_reference:
  "clean_column_name s = clean_reference s
   \<and> (differ_only s t \<longrightarrow> clean_column_name s = clean_column_name t)
   \<and> clean_column_name ''IRCTC ORDER NO.'' = ''IRCTCORDERNO''
   \<and> clean_column_name ''IRCTCORDERNO'' = ''IRCTCORDERNO''"
proof (intro conjI impI)
  show "clean_column_name s = clean_reference s"
    by (auto simp: clean_column_name_filter clean_reference_def remove_whitespace_def
        remove_dot_underscore_def removable_def intro: filter_cong)
  show "clean_column_name s = clean_column_name t" if "differ_only s t"
    using that by (rule differ_only_clean)
  show "clean_column_name ''IRCTC ORDER NO.'' = ''IRCTCORDERNO''"
    by (simp add: clean_column_name_filter removable_def py_isspace_def)
  show "clean_column_name ''IRCTCORDERNO'' = ''IRCTCORDERNO''"
    by (simp add: clean_column_name_filter removable_def py_isspace_def)
qed

lemma removable_space: "removable CHR '' ''"
  by (simp add: removable_def py_isspace_def)

lemma removable_dot: "removable CHR ''.''"
  by (simp add: removable_def)

lemma differ_only_example: "differ_only ''IRCTC ORDER NO.'' ''IRCTCORDERNO''"
proof -
  have "differ_only (''IRCTCORDERNO'' @ []) ''IRCTCORDERNO''"
    by (simp add: differ_only.same)
  then have "differ_only (''IRCTCORDERNO'' @ CHR ''.'' # []) ''IRCTCORDERNO''"
    by (rule differ_only.extra_left [OF removable_dot])
  then have "differ_only (''IRCTCORDER'' @ ''NO.'') ''IRCTCORDERNO''"
    by simp
  then have "differ_only (''IRCTCORDER'' @ CHR '' '' # ''NO.'') ''IRCTCORDERNO''"
    by (rule differ_only.extra_left [OF removable_space])
  then have "differ_only (''IRCTC'' @ ''ORDER NO.'') ''IRCTCORDERNO''"
    by simp
  then have "differ_only (''IRCTC'' @ CHR '' '' # ''ORDER NO.'') ''IRCTCORDERNO''"
    by (rule differ_only.extra_left [OF removable_space])
  then show ?thesis by simp
qed

theorem clean_column_name_reference_witness:
  "differ_only ''IRCTC ORDER NO.'' ''IRCTCORDERNO''
   \<and> clean_column_name ''IRCTC ORDER NO.'' = clean_column_name ''IRCTCORDERNO''"
  using clean_column_name_reference [of "''IRCTC ORDER NO.''" "''IRCTCORDERNO''"]
    differ_only_example by blast

lemma parse_float_empty: "parse_float [] = None"
  by (simp add: parse_float_def c_strip_def)

lemma parse_float_678: "parse_float ''678.0'' = Some (Finite 678)"
  by code_simp

lemma parse_float_12345: "parse_float ''12345'' = Some (Finite 12345)"
  by code_simp

lemma parse_float_abc: "parse_float ''abc'' = None"
  by code_simp

lemma convert_to_int_try_Str:
  "convert_to_int_try (Scalar (Str s)) =
     (case py_float s of Inl e \<Rightarrow> (if s = [] then Inr None else Inl e)
      | Inr f \<Rightarrow> (case py_int f of Inl e \<Rightarrow> Inl e | Inr i \<Rightarrow> Inr (Some i)))"
  by (auto simp: convert_to_int_try_def py_float_def parse_float_empty split: option.splits sum.splits)

lemma py_float_error: "py_float s = Inl e \<Longrightarrow> is_ValueError e"
  by (auto simp: py_float_def split: option.splits)

lemma py_int_error: "py_int f = Inl e \<Longrightarrow> is_ValueError e \<or> is_OverflowError e"
  by (cases f) auto

lemma convert_to_int_Str:
  "snd (convert_to_int (Scalar (Str s))) =
     Inr (case py_float s of Inl e \<Rightarrow> None
          | Inr f \<Rightarrow> (case py_int f of Inl e \<Rightarrow> None | Inr i \<Rightarrow> Some i))"
  by (auto simp: convert_to_int_def convert_to_int_try_Str
      split: sum.splits dest: py_float_error py_int_error)

lemma convert_to_int_returns: "\<exists>r. snd (convert_to_int val) = Inr r"
proof (cases val)
  case PyNone
  then show ?thesis by (simp add: convert_to_int_def convert_to_int_try_def)
next
  case (Scalar c)
  show ?thesis
  proof (cases c)
    case NA
    with Scalar show ?thesis by (simp add: convert_to_int_def convert_to_int_try_def)
  next
    case (Str s)
    with Scalar show ?thesis by (simp add: convert_to_int_Str)
  qed
next
  case (SeriesOf vs)
  then show ?thesis by (simp add: convert_to_int_def convert_to_int_try_def)
qed

text \<open>
  Claim C4. \<open>convert_to_int\<close> returns on every value a row can hold and never raises.
  On \<open>None\<close>, NaN and the empty text it returns \<open>None\<close>; on a text that \<open>float\<close> rejects
  it returns \<open>None\<close>; on a text that \<open>float\<close> reads as a finite number it returns that
  number truncated towards zero (on an infinity or NaN, \<open>None\<close>); \<open>678.0\<close> gives 678.
\<close>

theorem convert_to_int_total_tolerant:
  "(\<exists>r. snd (convert_to_int val) = Inr r)
   \<and> snd (convert_to_int PyNone) = Inr None
   \<and> snd (convert_to_int (Scalar NA)) = Inr None
   \<and> snd (convert_to_int (Scalar (Str ''''))) = Inr None
   \<and> (parse_float s = None \<longrightarrow> snd (convert_to_int (Scalar (Str s))) = Inr None)
   \<and> (parse_float s = Some (Finite q) \<longrightarrow>
        snd (convert_to_int (Scalar (Str s))) = Inr (Some (if 0 \<le> q then \<lfloor>q\<rfloor> else \<lceil>q\<rceil>)))
   \<and> snd (convert_to_int (Scalar (Str s))) =
        Inr (case py_float s of Inl e \<Rightarrow> None
             | Inr f \<Rightarrow> (case py_int f of Inl e \<Rightarrow> None | Inr i \<Rightarrow> Some i))
   \<and> convert_to_int (Scalar (Str ''678.0'')) = ([], Inr (Some 678))"
proof (intro conjI impI)
  show "\<exists>r. snd (convert_to_int val) = Inr r" by (rule convert_to_int_returns)
  show "snd (convert_to_int PyNone) = Inr None"
    by (simp add: convert_to_int_def convert_to_int_try_def)
  show "snd (convert_to_int (Scalar NA)) = Inr None"
    by (simp add: convert_to_int_def convert_to_int_try_def)
  show "snd (convert_to_int (Scalar (Str ''''))) = Inr None"
    by (simp add: convert_to_int_def convert_to_int_try_def)
  show "snd (convert_to_int (Scalar (Str s))) = Inr None" if "parse_float s = None"
    using that by (simp add: convert_to_int_Str py_float_def)
  show "snd (convert_to_int (Scalar (Str s))) = Inr (Some (if 0 \<le> q then \<lfloor>q\<rfloor> else \<lceil>q\<rceil>))"
    if "parse_float s = Some (Finite q)"
    using that by (simp add: convert_to_int_Str py_float_def)
  show "snd (convert_to_int (Scalar (Str s))) =
        Inr (case py_float s of Inl e \<Rightarrow> None
             | Inr f \<Rightarrow> (case py_int f of Inl e \<Rightarrow> None | Inr i \<Rightarrow> Some i))"
    by (rule convert_to_int_Str)
  show "convert_to_int (Scalar (Str ''678.0'')) = ([], Inr (Some 678))"
    by (simp add: convert_to_int_def convert_to_int_try_def py_float_def parse_float_678)
qed

theorem convert_to_int_total_tolerant_witness:
  "parse_float ''abc'' = None \<and> snd (convert_to_int (Scalar (Str ''abc''))) = Inr None
   \<and> parse_float ''678.0'' = Some (Finite 678)
   \<and> snd (convert_to_int (Scalar (Str ''678.0''))) = Inr (Some 678)"
  using convert_to_int_total_tolerant [of PyNone "''abc''" 0]
    convert_to_int_total_tolerant [of PyNone "''678.0''" 678]
    parse_float_abc parse_float_678 by simp

lemma row_try_lists:
  "row_try td bc tt get (bs, rs) =
     (case row_try td bc tt get ([], []) of
        (l, Inl e) \<Rightarrow> (l, Inl e)
      | (l, Inr (b, r)) \<Rightarrow> (l, Inr (bs @ b, rs @ r)))"
  by (auto simp: row_try_def and_then_def Let_def split: prod.splits sum.splits)

lemma row_step_lists:
  "row_step td bc tt cols i row (bs, rs, lg) =
     (bs @ fst (row_records td bc tt cols row), rs @ snd (row_records td bc tt cols row),
      lg @ row_logs td bc tt cols i row)"
  unfolding row_step_def row_records_def row_logs_def
  by (subst row_try_lists) (auto split: prod.splits sum.splits)

lemma iterrows_lists:
  "iterrows td bc tt cols i rows (bs, rs, lg) =
     (bs @ concat (map (\<lambda>row. fst (row_records td bc tt cols row)) rows),
      rs @ concat (map (\<lambda>row. snd (row_records td bc tt cols row)) rows),
      lg @ concat (map (\<lambda>(k, row). row_logs td bc tt cols (i + k) row) (enumerate 0 rows)))"
proof (induction rows arbitrary: i bs rs lg)
  case Nil
  then show ?case by simp
next
  case (Cons row rows)
  have "map (\<lambda>(k, row). row_logs td bc tt cols (i + k) row) (enumerate (Suc 0) rows)
      = map (\<lambda>(k, row). row_logs td bc tt cols (Suc i + k) row) (enumerate 0 rows)"
    by (simp add: enumerate_eq_zip map_zip_map del: upt_Suc) (simp add: map_Suc_upt [symmetric] map_zip_map del: upt_Suc)
  then show ?case
    by (simp add: row_step_lists Cons.IH)
qed

lemma convert_to_int_pair:
  obtains l r where "convert_to_int v = (l, Inr r)"
  using convert_to_int_returns [of v] by (cases "convert_to_int v") auto

lemma amount_of_null: "amount_of PyNone = Inr (Finite 0)" "amount_of (Scalar NA) = Inr (Finite 0)"
  by (simp_all add: amount_of_def)

lemma amount_of_Str: "amount_of (Scalar (Str s)) = py_float s"
  by (simp add: amount_of_def)

lemma amount_of_error: "amount_of x = Inl e \<Longrightarrow> \<not> is_KeyError e"
  by (cases x rule: notnull.cases) (auto simp: amount_of_def py_float_def split: option.splits)

lemma row_try_booking:
  assumes "amount_of (get ''booking_amount'') = Inr a"
    and "convert_to_int (get ''irctc_order_no'') = (l1, Inr ono)"
    and "convert_to_int (get ''bank_booking_ref_no'') = (l2, Inr r)"
  shows "row_try td bc ''booking'' get (bs, rs) =
     (l1 @ l2,
      Inr (if ono \<noteq> None \<and> ono \<noteq> Some 0 \<and> r \<noteq> None
           then (bs @ [[(''bank_code'', IntValue bc),
                        (''transaction_date'', DateValue (td (get ''transaction_date''))),
                        (''credited_date'', DateValue (td (get ''credited_date''))),
                        (''booking_amount'', FloatValue a),
                        (''irctc_order_no'', int_or_none ono),
                        (''bank_booking_ref_no'', int_or_none r)]], rs)
           else (bs, rs)))"
  using assms
  by (cases ono; cases r)
    (simp_all add: row_try_def booking_fields_def and_then_def dict_update_def
      valid_for_bulk_def dict_get_def Let_def)

lemma row_try_booking_raise:
  assumes "amount_of (get ''booking_amount'') = Inl e"
  shows "row_try td bc ''booking'' get (bs, rs) = ([], Inl e)"
  using assms by (simp add: row_try_def booking_fields_def and_then_def)

lemma row_try_refund:
  assumes "convert_to_int (get ''bank_booking_ref_no'') = (l1, Inr b)"
    and "convert_to_int (get ''bank_refund_ref_no'') = (l2, Inr r)"
    and "amount_of (get ''refund_amount'') = Inr a"
    and "convert_to_int (get ''irctc_order_no'') = (l3, Inr ono)"
  shows "row_try td bc ''refund'' get (bs, rs) =
     (l1 @ l2 @ l3,
      Inr (if ono \<noteq> None \<and> ono \<noteq> Some 0 \<and> r \<noteq> None
           then (bs, rs @ [[(''bank_code'', IntValue bc),
                            (''refund_date'', DateValue (td (get ''refund_date''))),
                            (''bank_booking_ref_no'', int_or_none b),
                            (''bank_refund_ref_no'', int_or_none r),
                            (''refund_amount'', FloatValue a),
                            (''debited_date'', DateValue (td (get ''debited_date''))),
                            (''irctc_order_no'', int_or_none ono)]])
           else (bs, rs)))"
  using assms
  by (cases ono; cases r)
    (simp_all add: row_try_def refund_fields_def and_then_def dict_update_def
      valid_for_bulk_def dict_get_def Let_def)

lemma row_try_refund_raise:
  assumes "convert_to_int (get ''bank_booking_ref_no'') = (l1, Inr b)"
    and "convert_to_int (get ''bank_refund_ref_no'') = (l2, Inr r)"
    and "amount_of (get ''refund_amount'') = Inl e"
  shows "row_try td bc ''refund'' get (bs, rs) = (l1 @ l2, Inl e)"
  using assms by (simp add: row_try_def refund_fields_def and_then_def)

lemma convert_to_int_12345: "convert_to_int (Scalar (Str ''12345'')) = ([], Inr (Some 12345))"
  by (simp add: convert_to_int_def convert_to_int_try_def py_float_def parse_float_12345)

lemma convert_to_int_678: "convert_to_int (Scalar (Str ''678.0'')) = ([], Inr (Some 678))"
  by (simp add: convert_to_int_def convert_to_int_try_def py_float_def parse_float_678)

lemma convert_to_int_empty: "convert_to_int (Scalar (Str '''')) = ([], Inr None)"
  by (simp add: convert_to_int_def convert_to_int_try_def)

lemma convert_to_int_NA: "convert_to_int (Scalar NA) = ([], Inr None)"
  by (simp add: convert_to_int_def convert_to_int_try_def)

lemma row_records_booking:
  assumes "amount_of (row_get cols row ''booking_amount'') = Inr a"
    and "snd (convert_to_int (row_get cols row ''irctc_order_no'')) = Inr ono"
    and "snd (convert_to_int (row_get cols row ''bank_booking_ref_no'')) = Inr r"
  shows "row_records td bc ''booking'' cols row =
     (if ono \<noteq> None \<and> ono \<noteq> Some 0 \<and> r \<noteq> None
      then ([[(''bank_code'', IntValue bc),
              (''transaction_date'', DateValue (td (row_get cols row ''transaction_date''))),
              (''credited_date'', DateValue (td (row_get cols row ''credited_date''))),
              (''booking_amount'', FloatValue a),
              (''irctc_order_no'', int_or_none ono),
              (''bank_booking_ref_no'', int_or_none r)]], [])
      else ([], []))"
    and "row_logs td bc ''booking'' cols i row =
      fst (convert_to_int (row_get cols row ''irctc_order_no''))
      @ fst (convert_to_int (row_get cols row ''bank_booking_ref_no''))"
proof -
  have 1: "convert_to_int (row_get cols row ''irctc_order_no'')
      = (fst (convert_to_int (row_get cols row ''irctc_order_no'')), Inr ono)"
    using assms(2) by (simp add: prod_eq_iff)
  have 2: "convert_to_int (row_get cols row ''bank_booking_ref_no'')
      = (fst (convert_to_int (row_get cols row ''bank_booking_ref_no'')), Inr r)"
    using assms(3) by (simp add: prod_eq_iff)
  note t = row_try_booking [where get = "row_get cols row" and td = td and bc = bc and bs = "[]" and rs = "[]", OF assms(1) 1 2]
  show "row_records td bc ''booking'' cols row =
     (if ono \<noteq> None \<and> ono \<noteq> Some 0 \<and> r \<noteq> None
      then ([[(''bank_code'', IntValue bc),
              (''transaction_date'', DateValue (td (row_get cols row ''transaction_date''))),
              (''credited_date'', DateValue (td (row_get cols row ''credited_date''))),
              (''booking_amount'', FloatValue a),
              (''irctc_order_no'', int_or_none ono),
              (''bank_booking_ref_no'', int_or_none r)]], [])
      else ([], []))"
    by (simp add: row_records_def t)
  show "row_logs td bc ''booking'' cols i row =
      fst (convert_to_int (row_get cols row ''irctc_order_no''))
      @ fst (convert_to_int (row_get cols row ''bank_booking_ref_no''))"
    by (simp add: row_logs_def row_step_def t)
qed

lemma row_records_booking_raise:
  assumes "amount_of (row_get cols row ''booking_amount'') = Inl e"
  shows "row_records td bc ''booking'' cols row = ([], [])"
    and "row_logs td bc ''booking'' cols i row = [RowError i row e]"
  using amount_of_error [OF assms]
  by (simp_all add: row_records_def row_logs_def row_step_def
      row_try_booking_raise [where get = "row_get cols row", OF assms])

lemma row_records_refund:
  assumes "amount_of (row_get cols row ''refund_amount'') = Inr a"
    and "snd (convert_to_int (row_get cols row ''irctc_order_no'')) = Inr ono"
    and "snd (convert_to_int (row_get cols row ''bank_refund_ref_no'')) = Inr r"
    and "snd (convert_to_int (row_get cols row ''bank_booking_ref_no'')) = Inr b"
  shows "row_records td bc ''refund'' cols row =
     (if ono \<noteq> None \<and> ono \<noteq> Some 0 \<and> r \<noteq> None
      then ([], [[(''bank_code'', IntValue bc),
                  (''refund_date'', DateValue (td (row_get cols row ''refund_date''))),
                  (''bank_booking_ref_no'', int_or_none b),
                  (''bank_refund_ref_no'', int_or_none r),
                  (''refund_amount'', FloatValue a),
                  (''debited_date'', DateValue (td (row_get cols row ''debited_date''))),
                  (''irctc_order_no'', int_or_none ono)]])
      else ([], []))"
    and "row_logs td bc ''refund'' cols i row =
      fst (convert_to_int (row_get cols row ''bank_booking_ref_no''))
      @ fst (convert_to_int (row_get cols row ''bank_refund_ref_no''))
      @ fst (convert_to_int (row_get cols row ''irctc_order_no''))"
proof -
  have 1: "convert_to_int (row_get cols row ''irctc_order_no'')
      = (fst (convert_to_int (row_get cols row ''irctc_order_no'')), Inr ono)"
    using assms(2) by (simp add: prod_eq_iff)
  have 2: "convert_to_int (row_get cols row ''bank_refund_ref_no'')
      = (fst (convert_to_int (row_get cols row ''bank_refund_ref_no'')), Inr r)"
    using assms(3) by (simp add: prod_eq_iff)
  have 3: "convert_to_int (row_get cols row ''bank_booking_ref_no'')
      = (fst (convert_to_int (row_get cols row ''bank_booking_ref_no'')), Inr b)"
    using assms(4) by (simp add: prod_eq_iff)
  note t = row_try_refund [where get = "row_get cols row" and td = td and bc = bc and bs = "[]" and rs = "[]", OF 3 2 assms(1) 1]
  show "row_records td bc ''refund'' cols row =
     (if ono \<noteq> None \<and> ono \<noteq> Some 0 \<and> r \<noteq> None
      then ([], [[(''bank_code'', IntValue bc),
                  (''refund_date'', DateValue (td (row_get cols row ''refund_date''))),
                  (''bank_booking_ref_no'', int_or_none b),
                  (''bank_refund_ref_no'', int_or_none r),
                  (''refund_amount'', FloatValue a),
                  (''debited_date'', DateValue (td (row_get cols row ''debited_date''))),
                  (''irctc_order_no'', int_or_none ono)]])
      else ([], []))"
    by (simp add: row_records_def t)
  show "row_logs td bc ''refund'' cols i row =
      fst (convert_to_int (row_get cols row ''bank_booking_ref_no''))
      @ fst (convert_to_int (row_get cols row ''bank_refund_ref_no''))
      @ fst (convert_to_int (row_get cols row ''irctc_order_no''))"
    by (simp add: row_logs_def row_step_def t)
qed

lemma row_records_refund_raise:
  assumes "amount_of (row_get cols row ''refund_amount'') = Inl e"
  shows "row_records td bc ''refund'' cols row = ([], [])"
    and "row_logs td bc ''refund'' cols i row =
      fst (convert_to_int (row_get cols row ''bank_booking_ref_no''))
      @ fst (convert_to_int (row_get cols row ''bank_refund_ref_no''))
      @ [RowError i row e]"
proof -
  obtain l1 b where 1: "convert_to_int (row_get cols row ''bank_booking_ref_no'') = (l1, Inr b)"
    by (rule convert_to_int_pair)
  obtain l2 r where 2: "convert_to_int (row_get cols row ''bank_refund_ref_no'') = (l2, Inr r)"
    by (rule convert_to_int_pair)
  note t = row_try_refund_raise [where get = "row_get cols row" and td = td and bc = bc and bs = "[]" and rs = "[]", OF 1 2 assms]
  show "row_records td bc ''refund'' cols row = ([], [])"
    by (simp add: row_records_def t)
  show "row_logs td bc ''refund'' cols i row =
      fst (convert_to_int (row_get cols row ''bank_booking_ref_no''))
      @ fst (convert_to_int (row_get cols row ''bank_refund_ref_no''))
      @ [RowError i row e]"
    using amount_of_error [OF assms] by (simp add: row_logs_def row_step_def t 1 2)
qed

lemma booking_example_cells:
  "row_get [''irctc_order_no'', ''bank_booking_ref_no'', ''booking_amount''] [a, b, c] ''irctc_order_no'' = Scalar a"
  "row_get [''irctc_order_no'', ''bank_booking_ref_no'', ''booking_amount''] [a, b, c] ''bank_booking_ref_no'' = Scalar b"
  "row_get [''irctc_order_no'', ''bank_booking_ref_no'', ''booking_amount''] [a, b, c] ''booking_amount'' = Scalar c"
  "row_get [''irctc_order_no'', ''bank_booking_ref_no'', ''booking_amount''] [a, b, c] ''transaction_date'' = PyNone"
  "row_get [''irctc_order_no'', ''bank_booking_ref_no'', ''booking_amount''] [a, b, c] ''credited_date'' = PyNone"
  by (simp_all add: row_get_def)

lemma refund_example_cells:
  "row_get [''irctc_order_no'', ''bank_refund_ref_no'', ''refund_amount''] [a, b, c] ''irctc_order_no'' = Scalar a"
  "row_get [''irctc_order_no'', ''bank_refund_ref_no'', ''refund_amount''] [a, b, c] ''bank_refund_ref_no'' = Scalar b"
  "row_get [''irctc_order_no'', ''bank_refund_ref_no'', ''refund_amount''] [a, b, c] ''refund_amount'' = Scalar c"
  "row_get [''irctc_order_no'', ''bank_refund_ref_no'', ''refund_amount''] [a, b, c] ''bank_booking_ref_no'' = PyNone"
  "row_get [''irctc_order_no'', ''bank_refund_ref_no'', ''refund_amount''] [a, b, c] ''refund_date'' = PyNone"
  "row_get [''irctc_order_no'', ''bank_refund_ref_no'', ''refund_amount''] [a, b, c] ''debited_date'' = PyNone"
  by (simp_all add: row_get_def)

lemma convert_to_int_PyNone: "convert_to_int PyNone = ([], Inr None)"
  by (simp add: convert_to_int_def convert_to_int_try_def)

lemma booking_emitted_only_if:
  assumes "fst (row_records td bc ''booking'' cols row) \<noteq> []"
  shows "\<exists>n m. snd (convert_to_int (row_get cols row ''irctc_order_no'')) = Inr (Some n)
          \<and> snd (convert_to_int (row_get cols row ''bank_booking_ref_no'')) = Inr (Some m)"
proof (cases "amount_of (row_get cols row ''booking_amount'')")
  case (Inl e)
  from row_records_booking_raise(1) [OF Inl, of td bc] assms show ?thesis by simp
next
  case (Inr a)
  obtain ono where 1: "snd (convert_to_int (row_get cols row ''irctc_order_no'')) = Inr ono"
    using convert_to_int_returns by blast
  obtain r where 2: "snd (convert_to_int (row_get cols row ''bank_booking_ref_no'')) = Inr r"
    using convert_to_int_returns by blast
  from row_records_booking(1) [OF Inr 1 2, of td bc] assms
  have "ono \<noteq> None \<and> r \<noteq> None" by (auto split: if_splits)
  with 1 2 show ?thesis by auto
qed

lemma refund_emitted_only_if:
  assumes "snd (row_records td bc ''refund'' cols row) \<noteq> []"
  shows "\<exists>n m. snd (convert_to_int (row_get cols row ''irctc_order_no'')) = Inr (Some n)
          \<and> snd (convert_to_int (row_get cols row ''bank_refund_ref_no'')) = Inr (Some m)"
proof (cases "amount_of (row_get cols row ''refund_amount'')")
  case (Inl e)
  from row_records_refund_raise(1) [OF Inl, of td bc] assms show ?thesis by simp
next
  case (Inr a)
  obtain ono where 1: "snd (convert_to_int (row_get cols row ''irctc_order_no'')) = Inr ono"
    using convert_to_int_returns by blast
  obtain r where 2: "snd (convert_to_int (row_get cols row ''bank_refund_ref_no'')) = Inr r"
    using convert_to_int_returns by blast
  obtain b where 3: "snd (convert_to_int (row_get cols row ''bank_booking_ref_no'')) = Inr b"
    using convert_to_int_returns by blast
  from row_records_refund(1) [OF Inr 1 2 3, of td bc] assms
  have "ono \<noteq> None \<and> r \<noteq> None" by (auto split: if_splits)
  with 1 2 show ?thesis by auto
qed

text \<open>
  Claim C2, as amended. A row yields a record only if its order number and its
  type-specific reference number (\<open>bank_booking_ref_no\<close> for a booking invocation,
  \<open>bank_refund_ref_no\<close> for a refund invocation) both coerce to integers. A row whose
  amount coercion does not raise, whose order number coerces to a non-zero integer and
  whose reference coerces to an integer yields exactly one record, whatever its other
  fields. A row whose amount coercion does not raise and of which one of the two
  numbers coerces to \<open>None\<close> yields no record and no row-level error: the only log
  records of the iteration are those of \<open>convert_to_int\<close>.
\<close>

theorem emission_requires_order_and_reference:
  "(fst (row_records td bc ''booking'' cols row) \<noteq> [] \<longrightarrow>
      (\<exists>n m. snd (convert_to_int (row_get cols row ''irctc_order_no'')) = Inr (Some n)
         \<and> snd (convert_to_int (row_get cols row ''bank_booking_ref_no'')) = Inr (Some m)))
   \<and> (snd (row_records td bc ''refund'' cols row) \<noteq> [] \<longrightarrow>
      (\<exists>n m. snd (convert_to_int (row_get cols row ''irctc_order_no'')) = Inr (Some n)
         \<and> snd (convert_to_int (row_get cols row ''bank_refund_ref_no'')) = Inr (Some m)))
   \<and> (amount_of (row_get cols row ''booking_amount'') = Inr a
        \<and> snd (convert_to_int (row_get cols row ''irctc_order_no'')) = Inr (Some n) \<and> n \<noteq> 0
        \<and> snd (convert_to_int (row_get cols row ''bank_booking_ref_no'')) = Inr (Some m)
      \<longrightarrow> row_records td bc ''booking'' cols row =
            ([[(''bank_code'', IntValue bc),
               (''transaction_date'', DateValue (td (row_get cols row ''transaction_date''))),
               (''credited_date'', DateValue (td (row_get cols row ''credited_date''))),
               (''booking_amount'', FloatValue a),
               (''irctc_order_no'', IntValue n),
               (''bank_booking_ref_no'', IntValue m)]], []))
   \<and> (amount_of (row_get cols row ''refund_amount'') = Inr a
        \<and> snd (convert_to_int (row_get cols row ''irctc_order_no'')) = Inr (Some n) \<and> n \<noteq> 0
        \<and> snd (convert_to_int (row_get cols row ''bank_refund_ref_no'')) = Inr (Some m)
        \<and> snd (convert_to_int (row_get cols row ''bank_booking_ref_no'')) = Inr b
      \<longrightarrow> row_records td bc ''refund'' cols row =
            ([], [[(''bank_code'', IntValue bc),
                   (''refund_date'', DateValue (td (row_get cols row ''refund_date''))),
                   (''bank_booking_ref_no'', int_or_none b),
                   (''bank_refund_ref_no'', IntValue m),
                   (''refund_amount'', FloatValue a),
                   (''debited_date'', DateValue (td (row_get cols row ''debited_date''))),
                   (''irctc_order_no'', IntValue n)]]))
   \<and> (amount_of (row_get cols row ''booking_amount'') = Inr a
        \<and> (snd (convert_to_int (row_get cols row ''irctc_order_no'')) = Inr None
            \<or> snd (convert_to_int (row_get cols row ''bank_booking_ref_no'')) = Inr None)
      \<longrightarrow> row_records td bc ''booking'' cols row = ([], [])
          \<and> row_logs td bc ''booking'' cols i row =
              fst (convert_to_int (row_get cols row ''irctc_order_no''))
              @ fst (convert_to_int (row_get cols row ''bank_booking_ref_no'')))
   \<and> (amount_of (row_get cols row ''refund_amount'') = Inr a
        \<and> (snd (convert_to_int (row_get cols row ''irctc_order_no'')) = Inr None
            \<or> snd (convert_to_int (row_get cols row ''bank_refund_ref_no'')) = Inr None)
      \<longrightarrow> row_records td bc ''refund'' cols row = ([], [])
          \<and> row_logs td bc ''refund'' cols i row =
              fst (convert_to_int (row_get cols row ''bank_booking_ref_no''))
              @ fst (convert_to_int (row_get cols row ''bank_refund_ref_no''))
              @ fst (convert_to_int (row_get cols row ''irctc_order_no'')))"
proof (intro conjI impI)
  assume "fst (row_records td bc ''booking'' cols row) \<noteq> []"
  then show "\<exists>n m. snd (convert_to_int (row_get cols row ''irctc_order_no'')) = Inr (Some n)
         \<and> snd (convert_to_int (row_get cols row ''bank_booking_ref_no'')) = Inr (Some m)"
    by (rule booking_emitted_only_if)
next
  assume "snd (row_records td bc ''refund'' cols row) \<noteq> []"
  then show "\<exists>n m. snd (convert_to_int (row_get cols row ''irctc_order_no'')) = Inr (Some n)
         \<and> snd (convert_to_int (row_get cols row ''bank_refund_ref_no'')) = Inr (Some m)"
    by (rule refund_emitted_only_if)
next
  assume h: "amount_of (row_get cols row ''booking_amount'') = Inr a
        \<and> snd (convert_to_int (row_get cols row ''irctc_order_no'')) = Inr (Some n) \<and> n \<noteq> 0
        \<and> snd (convert_to_int (row_get cols row ''bank_booking_ref_no'')) = Inr (Some m)"
  then show "row_records td bc ''booking'' cols row =
            ([[(''bank_code'', IntValue bc),
               (''transaction_date'', DateValue (td (row_get cols row ''transaction_date''))),
               (''credited_date'', DateValue (td (row_get cols row ''credited_date''))),
               (''booking_amount'', FloatValue a),
               (''irctc_order_no'', IntValue n),
               (''bank_booking_ref_no'', IntValue m)]], [])"
    by (simp add: row_records_booking(1) [of cols row a "Some n" "Some m"])
next
  assume h: "amount_of (row_get cols row ''refund_amount'') = Inr a
        \<and> snd (convert_to_int (row_get cols row ''irctc_order_no'')) = Inr (Some n) \<and> n \<noteq> 0
        \<and> snd (convert_to_int (row_get cols row ''bank_refund_ref_no'')) = Inr (Some m)
        \<and> snd (convert_to_int (row_get cols row ''bank_booking_ref_no'')) = Inr b"
  then show "row_records td bc ''refund'' cols row =
            ([], [[(''bank_code'', IntValue bc),
                   (''refund_date'', DateValue (td (row_get cols row ''refund_date''))),
                   (''bank_booking_ref_no'', int_or_none b),
                   (''bank_refund_ref_no'', IntValue m),
                   (''refund_amount'', FloatValue a),
                   (''debited_date'', DateValue (td (row_get cols row ''debited_date''))),
                   (''irctc_order_no'', IntValue n)]])"
    by (simp add: row_records_refund(1) [of cols row a "Some n" "Some m" b])
next
  assume h: "amount_of (row_get cols row ''booking_amount'') = Inr a
        \<and> (snd (convert_to_int (row_get cols row ''irctc_order_no'')) = Inr None
            \<or> snd (convert_to_int (row_get cols row ''bank_booking_ref_no'')) = Inr None)"
  obtain ono where 1: "snd (convert_to_int (row_get cols row ''irctc_order_no'')) = Inr ono"
    using convert_to_int_returns by blast
  obtain r where 2: "snd (convert_to_int (row_get cols row ''bank_booking_ref_no'')) = Inr r"
    using convert_to_int_returns by blast
  from h 1 2 have n: "ono = None \<or> r = None" by auto
  from h have a: "amount_of (row_get cols row ''booking_amount'') = Inr a" by simp
  from n show "row_records td bc ''booking'' cols row = ([], [])"
    by (auto simp: row_records_booking(1) [OF a 1 2])
  show "row_logs td bc ''booking'' cols i row =
              fst (convert_to_int (row_get cols row ''irctc_order_no''))
              @ fst (convert_to_int (row_get cols row ''bank_booking_ref_no''))"
    by (rule row_records_booking(2) [OF a 1 2])
next
  assume h: "amount_of (row_get cols row ''refund_amount'') = Inr a
        \<and> (snd (convert_to_int (row_get cols row ''irctc_order_no'')) = Inr None
            \<or> snd (convert_to_int (row_get cols row ''bank_refund_ref_no'')) = Inr None)"
  obtain ono where 1: "snd (convert_to_int (row_get cols row ''irctc_order_no'')) = Inr ono"
    using convert_to_int_returns by blast
  obtain r where 2: "snd (convert_to_int (row_get cols row ''bank_refund_ref_no'')) = Inr r"
    using convert_to_int_returns by blast
  obtain b where 3: "snd (convert_to_int (row_get cols row ''bank_booking_ref_no'')) = Inr b"
    using convert_to_int_returns by blast
  from h 1 2 have n: "ono = None \<or> r = None" by auto
  from h have a: "amount_of (row_get cols row ''refund_amount'') = Inr a" by simp
  from n show "row_records td bc ''refund'' cols row = ([], [])"
    by (auto simp: row_records_refund(1) [OF a 1 2 3])
  show "row_logs td bc ''refund'' cols i row =
              fst (convert_to_int (row_get cols row ''bank_booking_ref_no''))
              @ fst (convert_to_int (row_get cols row ''bank_refund_ref_no''))
              @ fst (convert_to_int (row_get cols row ''irctc_order_no''))"
    by (rule row_records_refund(2) [OF a 1 2 3])
qed

lemma amount_of_abc: "amount_of (Scalar (Str ''abc'')) = Inl (CouldNotConvert ''abc'')"
  by (simp add: amount_of_Str py_float_def parse_float_abc)

theorem emission_requires_order_and_reference_witness:
  "(amount_of (row_get [''irctc_order_no'', ''bank_booking_ref_no'', ''booking_amount'']
        [Str ''12345'', Str ''678.0'', NA] ''booking_amount'') = Inr (Finite 0)
    \<and> row_records (\<lambda>v. ()) 40 ''booking'' [''irctc_order_no'', ''bank_booking_ref_no'', ''booking_amount'']
        [Str ''12345'', Str ''678.0'', NA] =
       ([[(''bank_code'', IntValue 40), (''transaction_date'', DateValue ()),
          (''credited_date'', DateValue ()), (''booking_amount'', FloatValue (Finite 0)),
          (''irctc_order_no'', IntValue 12345), (''bank_booking_ref_no'', IntValue 678)]], [])
    \<and> (\<exists>n m. snd (convert_to_int (row_get [''irctc_order_no'', ''bank_booking_ref_no'', ''booking_amount'']
                 [Str ''12345'', Str ''678.0'', NA] ''irctc_order_no'')) = Inr (Some n)
          \<and> snd (convert_to_int (row_get [''irctc_order_no'', ''bank_booking_ref_no'', ''booking_amount'']
                 [Str ''12345'', Str ''678.0'', NA] ''bank_booking_ref_no'')) = Inr (Some m)))
   \<and> (snd (convert_to_int (row_get [''irctc_order_no'', ''bank_booking_ref_no'', ''booking_amount'']
          [Str '''', Str ''678.0'', NA] ''irctc_order_no'')) = Inr None
      \<and> row_records (\<lambda>v. ()) 40 ''booking'' [''irctc_order_no'', ''bank_booking_ref_no'', ''booking_amount'']
          [Str '''', Str ''678.0'', NA] = ([], [])
      \<and> row_logs (\<lambda>v. ()) 40 ''booking'' [''irctc_order_no'', ''bank_booking_ref_no'', ''booking_amount'']
          0 [Str '''', Str ''678.0'', NA] = [])
   \<and> (row_records (\<lambda>v. ()) 40 ''refund'' [''irctc_order_no'', ''bank_refund_ref_no'', ''refund_amount'']
        [Str ''12345'', Str ''678.0'', NA] =
       ([], [[(''bank_code'', IntValue 40), (''refund_date'', DateValue ()),
              (''bank_booking_ref_no'', NoneValue), (''bank_refund_ref_no'', IntValue 678),
              (''refund_amount'', FloatValue (Finite 0)), (''debited_date'', DateValue ()),
              (''irctc_order_no'', IntValue 12345)]])
      \<and> (\<exists>n m. snd (convert_to_int (row_get [''irctc_order_no'', ''bank_refund_ref_no'', ''refund_amount'']
                 [Str ''12345'', Str ''678.0'', NA] ''irctc_order_no'')) = Inr (Some n)
          \<and> snd (convert_to_int (row_get [''irctc_order_no'', ''bank_refund_ref_no'', ''refund_amount'']
                 [Str ''12345'', Str ''678.0'', NA] ''bank_refund_ref_no'')) = Inr (Some m)))
   \<and> (snd (convert_to_int (row_get [''irctc_order_no'', ''bank_refund_ref_no'', ''refund_amount'']
          [Str ''12345'', NA, NA] ''bank_refund_ref_no'')) = Inr None
      \<and> row_records (\<lambda>v. ()) 40 ''refund'' [''irctc_order_no'', ''bank_refund_ref_no'', ''refund_amount'']
          [Str ''12345'', NA, NA] = ([], [])
      \<and> row_logs (\<lambda>v. ()) 40 ''refund'' [''irctc_order_no'', ''bank_refund_ref_no'', ''refund_amount'']
          0 [Str ''12345'', NA, NA] = [])"
proof -
  have n: "(12345::int) \<noteq> 0" by simp
  note be = emission_requires_order_and_reference
    [of "\<lambda>v. ()" 40 "[''irctc_order_no'', ''bank_booking_ref_no'', ''booking_amount'']"
      "[Str ''12345'', Str ''678.0'', NA]" "Finite 0" 12345 678 None 0]
  note bd = emission_requires_order_and_reference
    [of "\<lambda>v. ()" 40 "[''irctc_order_no'', ''bank_booking_ref_no'', ''booking_amount'']"
      "[Str '''', Str ''678.0'', NA]" "Finite 0" 12345 678 None 0]
  note re = emission_requires_order_and_reference
    [of "\<lambda>v. ()" 40 "[''irctc_order_no'', ''bank_refund_ref_no'', ''refund_amount'']"
      "[Str ''12345'', Str ''678.0'', NA]" "Finite 0" 12345 678 None 0]
  note rd = emission_requires_order_and_reference
    [of "\<lambda>v. ()" 40 "[''irctc_order_no'', ''bank_refund_ref_no'', ''refund_amount'']"
      "[Str ''12345'', NA, NA]" "Finite 0" 12345 678 None 0]
  have b1: "row_records (\<lambda>v. ()) 40 ''booking'' [''irctc_order_no'', ''bank_booking_ref_no'', ''booking_amount'']
        [Str ''12345'', Str ''678.0'', NA] =
       ([[(''bank_code'', IntValue 40), (''transaction_date'', DateValue ()),
          (''credited_date'', DateValue ()), (''booking_amount'', FloatValue (Finite 0)),
          (''irctc_order_no'', IntValue 12345), (''bank_booking_ref_no'', IntValue 678)]], [])"
    using be n by (simp add: booking_example_cells convert_to_int_12345 convert_to_int_678 amount_of_null)
  then have "fst (row_records (\<lambda>v. ()) 40 ''booking'' [''irctc_order_no'', ''bank_booking_ref_no'', ''booking_amount'']
        [Str ''12345'', Str ''678.0'', NA]) \<noteq> []"
    by simp
  with be have b2: "\<exists>n m. snd (convert_to_int (row_get [''irctc_order_no'', ''bank_booking_ref_no'', ''booking_amount'']
                 [Str ''12345'', Str ''678.0'', NA] ''irctc_order_no'')) = Inr (Some n)
          \<and> snd (convert_to_int (row_get [''irctc_order_no'', ''bank_booking_ref_no'', ''booking_amount'']
                 [Str ''12345'', Str ''678.0'', NA] ''bank_booking_ref_no'')) = Inr (Some m)"
    by blast
  have b3: "row_records (\<lambda>v. ()) 40 ''booking'' [''irctc_order_no'', ''bank_booking_ref_no'', ''booking_amount'']
          [Str '''', Str ''678.0'', NA] = ([], [])
      \<and> row_logs (\<lambda>v. ()) 40 ''booking'' [''irctc_order_no'', ''bank_booking_ref_no'', ''booking_amount'']
          0 [Str '''', Str ''678.0'', NA] = []"
    using bd by (simp add: booking_example_cells convert_to_int_empty convert_to_int_678 amount_of_null)
  have r1: "row_records (\<lambda>v. ()) 40 ''refund'' [''irctc_order_no'', ''bank_refund_ref_no'', ''refund_amount'']
        [Str ''12345'', Str ''678.0'', NA] =
       ([], [[(''bank_code'', IntValue 40), (''refund_date'', DateValue ()),
              (''bank_booking_ref_no'', NoneValue), (''bank_refund_ref_no'', IntValue 678),
              (''refund_amount'', FloatValue (Finite 0)), (''debited_date'', DateValue ()),
              (''irctc_order_no'', IntValue 12345)]])"
    using re n
    by (simp add: refund_example_cells convert_to_int_12345 convert_to_int_678
        convert_to_int_PyNone amount_of_null)
  then have "snd (row_records (\<lambda>v. ()) 40 ''refund'' [''irctc_order_no'', ''bank_refund_ref_no'', ''refund_amount'']
        [Str ''12345'', Str ''678.0'', NA]) \<noteq> []"
    by simp
  with re have r2: "\<exists>n m. snd (convert_to_int (row_get [''irctc_order_no'', ''bank_refund_ref_no'', ''refund_amount'']
                 [Str ''12345'', Str ''678.0'', NA] ''irctc_order_no'')) = Inr (Some n)
          \<and> snd (convert_to_int (row_get [''irctc_order_no'', ''bank_refund_ref_no'', ''refund_amount'']
                 [Str ''12345'', Str ''678.0'', NA] ''bank_refund_ref_no'')) = Inr (Some m)"
    by blast
  have r3: "row_records (\<lambda>v. ()) 40 ''refund'' [''irctc_order_no'', ''bank_refund_ref_no'', ''refund_amount'']
          [Str ''12345'', NA, NA] = ([], [])
      \<and> row_logs (\<lambda>v. ()) 40 ''refund'' [''irctc_order_no'', ''bank_refund_ref_no'', ''refund_amount'']
          0 [Str ''12345'', NA, NA] = []"
    using rd
    by (simp add: refund_example_cells convert_to_int_12345 convert_to_int_NA
        convert_to_int_PyNone amount_of_null)
  show ?thesis
    using b1 b2 b3 r1 r2 r3
    by (simp add: booking_example_cells refund_example_cells amount_of_null
        convert_to_int_empty convert_to_int_NA)
qed

text \<open>
  Claim C2 as stated fails: in the booking row with order \<open>12345\<close>, reference \<open>678.0\<close> and
  amount \<open>abc\<close> both numbers coerce to integers, and the row yields no record, because
  the amount raises.
\<close>

theorem garbled_amount_counterexample:
  "snd (convert_to_int (row_get [''irctc_order_no'', ''bank_booking_ref_no'', ''booking_amount'']
          [Str ''12345'', Str ''678.0'', Str ''abc''] ''irctc_order_no'')) = Inr (Some 12345)
   \<and> snd (convert_to_int (row_get [''irctc_order_no'', ''bank_booking_ref_no'', ''booking_amount'']
          [Str ''12345'', Str ''678.0'', Str ''abc''] ''bank_booking_ref_no'')) = Inr (Some 678)
   \<and> row_records (\<lambda>v. ()) 40 ''booking'' [''irctc_order_no'', ''bank_booking_ref_no'', ''booking_amount'']
        [Str ''12345'', Str ''678.0'', Str ''abc''] = ([], [])"
proof -
  have b: "amount_of (row_get [''irctc_order_no'', ''bank_booking_ref_no'', ''booking_amount'']
        [Str ''12345'', Str ''678.0'', Str ''abc''] ''booking_amount'') = Inl (CouldNotConvert ''abc'')"
    by (simp add: booking_example_cells amount_of_abc)
  show ?thesis
    using row_records_booking_raise(1) [OF b, where td = "\<lambda>v. ()" and bc = 40]
    by (simp add: booking_example_cells convert_to_int_12345 convert_to_int_678)
qed

text \<open>
  The guard tests the truth value of the order number, not whether it is \<open>None\<close>: a row
  whose order number coerces to the integer 0 is dropped as well.
\<close>

lemma parse_float_0: "parse_float ''0'' = Some (Finite 0)"
  by code_simp

lemma order_zero_dropped:
  "snd (convert_to_int (Scalar (Str ''0''))) = Inr (Some 0)
   \<and> row_records (\<lambda>v. ()) 40 ''booking'' [''irctc_order_no'', ''bank_booking_ref_no'', ''booking_amount'']
        [Str ''0'', Str ''678.0'', NA] = ([], [])"
proof -
  have z: "convert_to_int (Scalar (Str ''0'')) = ([], Inr (Some 0))"
    by (simp add: convert_to_int_def convert_to_int_try_def py_float_def parse_float_0)
  have a: "amount_of (row_get [''irctc_order_no'', ''bank_booking_ref_no'', ''booking_amount'']
        [Str ''0'', Str ''678.0'', NA] ''booking_amount'') = Inr (Finite 0)"
    by (simp add: booking_example_cells amount_of_null)
  have 1: "snd (convert_to_int (row_get [''irctc_order_no'', ''bank_booking_ref_no'', ''booking_amount'']
        [Str ''0'', Str ''678.0'', NA] ''irctc_order_no'')) = Inr (Some 0)"
    by (simp add: booking_example_cells z)
  have 2: "snd (convert_to_int (row_get [''irctc_order_no'', ''bank_booking_ref_no'', ''booking_amount'']
        [Str ''0'', Str ''678.0'', NA] ''bank_booking_ref_no'')) = Inr (Some 678)"
    by (simp add: booking_example_cells convert_to_int_678)
  show ?thesis
    using row_records_booking(1) [OF a 1 2, where td = "\<lambda>v. ()" and bc = 40] z by simp
qed

lemma read_file_cases:
  "read_file pd ff fc =
     (if ff = ''excel'' then ([], read_excel pd fc)
      else if ff = ''csv'' then ([], read_csv pd fc)
      else ([Logged (UnsupportedFormatLog ff)], Inl UnsupportedFileFormat))"
  by (simp add: read_file_def)

lemma task_effects_unfold:
  "task_effects pd g fc fn bank tt ff =
     (case read_file pd ff fc of
        (l, Inl e) \<Rightarrow> l @ [Logged (FileError fn e)]
      | (l, Inr df) \<Rightarrow>
          l @ (case schema_lookup g bank tt of
                 Inl e \<Rightarrow> [Logged (FileError fn e)]
               | Inr sch \<Rightarrow>
                   if set (map clean_column_name (columns sch))
                        - set (map clean_column_name (df_columns df)) \<noteq> {}
                   then [Logged (MissingColumnsLog fn
                           (set (map clean_column_name (columns sch))
                            - set (map clean_column_name (df_columns df)))),
                         Logged (FileError fn (MissingColumns
                           (set (map clean_column_name (columns sch))
                            - set (map clean_column_name (df_columns df)))))]
                   else (case bank_code_mapping g bank of
                           None \<Rightarrow> [Logged (BankCodeNotFound bank)]
                         | Some bank_code \<Rightarrow>
                             (case iterrows (to_datetime pd) bank_code tt
                                     (rename_columns
                                        (dict_of_items (map (\<lambda>(k, v). (clean_column_name k, v))
                                                          (column_mapping sch)))
                                        (map clean_column_name (df_columns df)))
                                     0 (df_rows df) ([], [], []) of
                                (bs, rs, lg) \<Rightarrow>
                                  map Logged lg
                                  @ (if bs \<noteq> [] then [BulkCreateBookings bs] else [])
                                  @ (if rs \<noteq> [] then [BulkCreateRefunds rs] else [])))))"
  by (auto simp: task_effects_def task_body_def and_then_def Let_def
      split: prod.splits sum.splits option.splits)

lemma bookings_of_append: "bookings_of (xs @ ys) = bookings_of xs @ bookings_of ys"
  by (induction xs rule: bookings_of.induct) simp_all

lemma refunds_of_append: "refunds_of (xs @ ys) = refunds_of xs @ refunds_of ys"
  by (induction xs rule: refunds_of.induct) simp_all

lemma bookings_of_Logged: "bookings_of (map Logged lg) = []"
  by (induction lg) simp_all

lemma refunds_of_Logged: "refunds_of (map Logged lg) = []"
  by (induction lg) simp_all

lemma convert_to_int_logs:
  "x \<in> set (fst (convert_to_int v)) \<Longrightarrow> \<exists>e. x = ConvertError v e"
  by (auto simp: convert_to_int_def split: sum.splits if_splits)

lemma and_then_logs:
  "x \<in> set (fst (and_then m f)) \<Longrightarrow>
     x \<in> set (fst m) \<or> (\<exists>a. snd m = Inr a \<and> x \<in> set (fst (f a)))"
  by (auto simp: and_then_def split: prod.splits sum.splits)

lemma convert_to_int_is_row_log: "x \<in> set (fst (convert_to_int v)) \<Longrightarrow> is_row_log x"
  by (auto dest: convert_to_int_logs simp: is_row_log_def)

lemma booking_fields_logs: "x \<in> set (fst (booking_fields td get)) \<Longrightarrow> is_row_log x"
  unfolding booking_fields_def Let_def
  by (auto dest!: and_then_logs dest: convert_to_int_is_row_log)

lemma refund_fields_logs: "x \<in> set (fst (refund_fields td get)) \<Longrightarrow> is_row_log x"
  unfolding refund_fields_def Let_def
  by (auto dest!: and_then_logs dest: convert_to_int_is_row_log)

lemma and_then_pure_logs: "fst (and_then ([], r) (\<lambda>v. ([], g v))) = []"
  by (cases r) (simp_all add: and_then_def)

lemma row_try_logs:
  assumes "x \<in> set (fst (row_try td bc tt get bulk))"
  shows "is_row_log x"
proof -
  obtain a b where bulk: "bulk = (a, b)" by (cases bulk)
  show ?thesis
  proof (cases "tt = ''booking''")
    case True
    with assms bulk show ?thesis
      unfolding row_try_def Let_def
      by (auto dest!: and_then_logs dest: booking_fields_logs simp: and_then_pure_logs)
  next
    case False
    show ?thesis
    proof (cases "tt = ''refund''")
      case True
      with assms bulk False show ?thesis
        unfolding row_try_def Let_def
        by (auto dest!: and_then_logs dest: refund_fields_logs simp: and_then_pure_logs)
    next
      case nr: False
      with assms bulk False show ?thesis
        by (simp add: row_try_def)
    qed
  qed
qed

lemma row_logs_kinds:
  assumes "x \<in> set (row_logs td bc tt cols i row)"
  shows "is_row_log x"
proof -
  obtain l r where t: "row_try td bc tt (row_get cols row) ([], []) = (l, r)"
    by (cases "row_try td bc tt (row_get cols row) ([], [])")
  have l: "\<And>y. y \<in> set l \<Longrightarrow> is_row_log y"
    using row_try_logs [of _ td bc tt "row_get cols row" "([], [])"] t by simp
  show ?thesis
  proof (cases r)
    case (Inl e)
    with assms t have "x \<in> set l \<or> x = RowKeyError i row e \<or> x = RowError i row e"
      by (auto simp: row_logs_def row_step_def split: if_splits)
    with l show ?thesis by (auto simp: is_row_log_def)
  next
    case (Inr p)
    with assms t have "x \<in> set l"
      by (auto simp: row_logs_def row_step_def split: prod.splits)
    with l show ?thesis by simp
  qed
qed

lemma iterrows_logs_kinds:
  assumes "x \<in> set (snd (snd (iterrows td bc tt cols i rows (bs, rs, []))))"
  shows "is_row_log x"
  using assms by (auto simp: iterrows_lists dest: row_logs_kinds)

lemma row_records_sides:
  "tt = ''booking'' \<Longrightarrow> snd (row_records td bc tt cols row) = []"
  "tt = ''refund'' \<Longrightarrow> fst (row_records td bc tt cols row) = []"
  "tt \<noteq> ''booking'' \<Longrightarrow> tt \<noteq> ''refund'' \<Longrightarrow> row_records td bc tt cols row = ([], [])"
  by (auto simp: row_records_def row_try_def and_then_def Let_def split: prod.splits sum.splits)

lemma read_file_logs: "fst (read_file pd ff fc) = [] \<or> fst (read_file pd ff fc) = [Logged (UnsupportedFormatLog ff)]"
  by (simp add: read_file_def)

lemma read_file_Inr: "read_file pd ff fc = (l, Inr df) \<Longrightarrow> l = []"
  by (auto simp: read_file_def split: if_splits)

lemma task_effects_loop:
  assumes "snd (read_file pd ff fc) = Inr df"
    and "schema_lookup g bank tt = Inr sch"
    and "missing_columns sch df = {}"
    and "bank_code_mapping g bank = Some code"
  shows "task_effects pd g fc fn bank tt ff =
     (let bs = concat (map (\<lambda>row. fst (row_records (to_datetime pd) code tt (normalized_columns sch df) row)) (df_rows df));
          rs = concat (map (\<lambda>row. snd (row_records (to_datetime pd) code tt (normalized_columns sch df) row)) (df_rows df))
      in map Logged (concat (map (\<lambda>(k, row). row_logs (to_datetime pd) code tt (normalized_columns sch df) k row)
                              (enumerate 0 (df_rows df))))
         @ (if bs \<noteq> [] then [BulkCreateBookings bs] else [])
         @ (if rs \<noteq> [] then [BulkCreateRefunds rs] else []))"
proof -
  from assms(1) have r: "read_file pd ff fc = ([], Inr df)"
    using read_file_Inr [of pd ff fc "fst (read_file pd ff fc)" df] by (simp add: prod_eq_iff)
  show ?thesis
    using assms(2,3,4)
    by (simp add: task_effects_unfold r missing_columns_def normalized_columns_def iterrows_lists Let_def)
qed

lemma task_effects_no_loop:
  assumes "snd (read_file pd ff fc) = Inl e
           \<or> (\<exists>df. snd (read_file pd ff fc) = Inr df \<and>
                 (schema_lookup g bank tt = Inl e
                  \<or> (\<exists>sch. schema_lookup g bank tt = Inr sch \<and>
                        (missing_columns sch df \<noteq> {} \<or> bank_code_mapping g bank = None))))"
  shows "\<forall>x\<in>set (task_effects pd g fc fn bank tt ff). \<exists>y. x = Logged y \<and> \<not> is_row_log y"
proof -
  have l: "fst (read_file pd ff fc) = [] \<or> fst (read_file pd ff fc) = [Logged (UnsupportedFormatLog ff)]"
    by (rule read_file_logs)
  obtain l r where rf: "read_file pd ff fc = (l, r)" by (cases "read_file pd ff fc")
  with l have l': "l = [] \<or> l = [Logged (UnsupportedFormatLog ff)]" by simp
  from assms rf have A: "r = Inl e
           \<or> (\<exists>df. r = Inr df \<and>
                 (schema_lookup g bank tt = Inl e
                  \<or> (\<exists>sch. schema_lookup g bank tt = Inr sch \<and>
                        (missing_columns sch df \<noteq> {} \<or> bank_code_mapping g bank = None))))"
    by simp
  from A consider
      (a) "r = Inl e"
    | (b) df where "r = Inr df" "schema_lookup g bank tt = Inl e"
    | (c) df sch where "r = Inr df" "schema_lookup g bank tt = Inr sch" "missing_columns sch df \<noteq> {}"
    | (d) df sch where "r = Inr df" "schema_lookup g bank tt = Inr sch" "missing_columns sch df = {}"
        "bank_code_mapping g bank = None"
    by blast
  then show ?thesis
  proof cases
    case a
    with rf l' show ?thesis
      by (auto simp: task_effects_unfold is_row_log_def)
  next
    case b
    with rf read_file_Inr [of pd ff fc l df] show ?thesis
      by (auto simp: task_effects_unfold is_row_log_def)
  next
    case c
    with rf read_file_Inr [of pd ff fc l df] show ?thesis
      by (auto simp: task_effects_unfold is_row_log_def missing_columns_def)
  next
    case d
    with rf read_file_Inr [of pd ff fc l df] show ?thesis
      by (auto simp: task_effects_unfold is_row_log_def missing_columns_def)
  qed
qed

lemma task_effects_cases:
  obtains (loop) df sch code where "snd (read_file pd ff fc) = Inr df"
      "schema_lookup g bank tt = Inr sch" "missing_columns sch df = {}"
      "bank_code_mapping g bank = Some code"
  | (no_loop) "\<forall>x\<in>set (task_effects pd g fc fn bank tt ff). \<exists>y. x = Logged y \<and> \<not> is_row_log y"
proof (cases "snd (read_file pd ff fc)")
  case (Inl e)
  then show ?thesis using task_effects_no_loop [of pd ff fc e g bank tt fn] no_loop by blast
next
  case (Inr df)
  show ?thesis
  proof (cases "schema_lookup g bank tt")
    case (Inl e)
    with Inr show ?thesis using task_effects_no_loop [of pd ff fc e g bank tt fn] no_loop by blast
  next
    case sch: (Inr sch)
    show ?thesis
    proof (cases "missing_columns sch df \<noteq> {} \<or> bank_code_mapping g bank = None")
      case True
      with Inr sch show ?thesis
        using task_effects_no_loop [of pd ff fc undefined g bank tt fn] no_loop by blast
    next
      case False
      with Inr sch show ?thesis using loop by auto
    qed
  qed
qed

lemma only_logged:
  assumes "\<forall>x\<in>set es. \<exists>y. x = Logged y \<and> P y"
  shows "bookings_of es = []" and "refunds_of es = []"
    and "BulkCreateBookings bs \<notin> set es" and "BulkCreateRefunds rs \<notin> set es"
proof -
  from assms show "bookings_of es = []" by (induction es) auto
  from assms show "refunds_of es = []" by (induction es) auto
  from assms show "BulkCreateBookings bs \<notin> set es" by auto
  from assms show "BulkCreateRefunds rs \<notin> set es" by auto
qed

lemma concat_all_empty: "(\<And>x. f x = []) \<Longrightarrow> concat (map f xs) = []"
  by (induction xs) simp_all

lemma iterrows_sides:
  "tt = ''booking'' \<Longrightarrow> fst (snd (iterrows td bc tt cols i rows (bs, rs, lg))) = rs"
  "tt = ''refund'' \<Longrightarrow> fst (iterrows td bc tt cols i rows (bs, rs, lg)) = bs"
  by (simp_all add: iterrows_lists row_records_sides concat_all_empty)

text \<open>
  Claim C7. The loop builds two lists, and the persistence layer is called once for
  each that is not empty. With \<open>transaction_type = 'booking'\<close> the refund list is empty at
  the end of the loop, and no invocation hands refunds to the persistence layer; with
  \<open>transaction_type = 'refund'\<close> the same holds of the booking list.
\<close>

theorem other_collection_empty:
  "(transaction_type = ''booking'' \<longrightarrow>
      fst (snd (iterrows td bc transaction_type cols i rows ([], [], []))) = []
      \<and> refunds_of (task_effects pd g fc fn bank transaction_type ff) = []
      \<and> (\<forall>rs. BulkCreateRefunds rs \<notin> set (task_effects pd g fc fn bank transaction_type ff)))
   \<and> (transaction_type = ''refund'' \<longrightarrow>
      fst (iterrows td bc transaction_type cols i rows ([], [], [])) = []
      \<and> bookings_of (task_effects pd g fc fn bank transaction_type ff) = []
      \<and> (\<forall>bs. BulkCreateBookings bs \<notin> set (task_effects pd g fc fn bank transaction_type ff)))"
proof (intro conjI impI allI)
  assume b: "transaction_type = ''booking''"
  show "fst (snd (iterrows td bc transaction_type cols i rows ([], [], []))) = []"
    using b by (rule iterrows_sides(1))
  show "refunds_of (task_effects pd g fc fn bank transaction_type ff) = []"
  proof (cases rule: task_effects_cases [where pd = pd and ff = ff and fc = fc and g = g and bank = bank and tt = transaction_type and fn = fn])
    case (loop df sch code)
    then show ?thesis
      by (simp add: task_effects_loop Let_def refunds_of_append refunds_of_Logged
          row_records_sides(1) [OF b] concat_all_empty)
  next
    case no_loop
    then show ?thesis by (rule only_logged(2))
  qed
  show "BulkCreateRefunds rs \<notin> set (task_effects pd g fc fn bank transaction_type ff)" for rs
  proof (cases rule: task_effects_cases [where pd = pd and ff = ff and fc = fc and g = g and bank = bank and tt = transaction_type and fn = fn])
    case (loop df sch code)
    then show ?thesis
      by (auto simp: task_effects_loop Let_def row_records_sides(1) [OF b] concat_all_empty)
  next
    case no_loop
    then show ?thesis by (rule only_logged(4))
  qed
next
  assume r: "transaction_type = ''refund''"
  show "fst (iterrows td bc transaction_type cols i rows ([], [], [])) = []"
    using r by (rule iterrows_sides(2))
  show "bookings_of (task_effects pd g fc fn bank transaction_type ff) = []"
  proof (cases rule: task_effects_cases [where pd = pd and ff = ff and fc = fc and g = g and bank = bank and tt = transaction_type and fn = fn])
    case (loop df sch code)
    then show ?thesis
      by (simp add: task_effects_loop Let_def bookings_of_append bookings_of_Logged
          row_records_sides(2) [OF r] concat_all_empty)
  next
    case no_loop
    then show ?thesis by (rule only_logged(1))
  qed
  show "BulkCreateBookings bs \<notin> set (task_effects pd g fc fn bank transaction_type ff)" for bs
  proof (cases rule: task_effects_cases [where pd = pd and ff = ff and fc = fc and g = g and bank = bank and tt = transaction_type and fn = fn])
    case (loop df sch code)
    then show ?thesis
      by (auto simp: task_effects_loop Let_def row_records_sides(2) [OF r] concat_all_empty)
  next
    case no_loop
    then show ?thesis by (rule only_logged(3))
  qed
qed

theorem other_collection_empty_witness:
  "''booking'' = ''booking''
   \<and> fst (snd (iterrows (\<lambda>v. ()) 40 ''booking'' refund_columns 0 [good_refund_row] ([], [], []))) = []
   \<and> refunds_of (task_effects table_reader shipped booking_table ''b.csv'' ''karur_vysya'' ''booking'' ''csv'') = []
   \<and> (\<forall>rs. BulkCreateRefunds rs \<notin>
          set (task_effects table_reader shipped booking_table ''b.csv'' ''karur_vysya'' ''booking'' ''csv''))
   \<and> ''refund'' = ''refund''
   \<and> fst (iterrows (\<lambda>v. ()) 40 ''refund'' refund_columns 0 [good_refund_row] ([], [], [])) = []
   \<and> bookings_of (task_effects table_reader shipped booking_table ''b.csv'' ''karur_vysya'' ''refund'' ''csv'') = []
   \<and> (\<forall>bs. BulkCreateBookings bs \<notin>
          set (task_effects table_reader shipped booking_table ''b.csv'' ''karur_vysya'' ''refund'' ''csv''))"
  using other_collection_empty [of "''booking''" "\<lambda>v. ()" 40 refund_columns 0 "[good_refund_row]"
      table_reader shipped booking_table "''b.csv''" "''karur_vysya''" "''csv''"]
    other_collection_empty [of "''refund''" "\<lambda>v. ()" 40 refund_columns 0 "[good_refund_row]"
      table_reader shipped booking_table "''b.csv''" "''karur_vysya''" "''csv''"]
  by blast

lemma mset_concat_map:
  "mset xs = mset ys \<Longrightarrow> mset (concat (map f xs)) = mset (concat (map f ys))"
proof -
  have "mset (concat (map f zs)) = (\<Sum>x\<in>#mset zs. mset (f x))" for zs
    by (induction zs) simp_all
  then show "mset xs = mset ys \<Longrightarrow> mset (concat (map f xs)) = mset (concat (map f ys))"
    by simp
qed

lemma task_effects_batches:
  "bookings_of (task_effects pd g fc fn bank tt ff) =
     (case snd (read_file pd ff fc) of
        Inl e \<Rightarrow> []
      | Inr df \<Rightarrow>
          (case schema_lookup g bank tt of
             Inl e \<Rightarrow> []
           | Inr sch \<Rightarrow>
               (case bank_code_mapping g bank of
                  None \<Rightarrow> []
                | Some code \<Rightarrow>
                    if missing_columns sch df = {}
                    then concat (map (\<lambda>row. fst (row_records (to_datetime pd) code tt
                                                  (normalized_columns sch df) row)) (df_rows df))
                    else [])))"
  "refunds_of (task_effects pd g fc fn bank tt ff) =
     (case snd (read_file pd ff fc) of
        Inl e \<Rightarrow> []
      | Inr df \<Rightarrow>
          (case schema_lookup g bank tt of
             Inl e \<Rightarrow> []
           | Inr sch \<Rightarrow>
               (case bank_code_mapping g bank of
                  None \<Rightarrow> []
                | Some code \<Rightarrow>
                    if missing_columns sch df = {}
                    then concat (map (\<lambda>row. snd (row_records (to_datetime pd) code tt
                                                  (normalized_columns sch df) row)) (df_rows df))
                    else [])))"
proof -
  show "bookings_of (task_effects pd g fc fn bank tt ff) =
     (case snd (read_file pd ff fc) of
        Inl e \<Rightarrow> []
      | Inr df \<Rightarrow>
          (case schema_lookup g bank tt of
             Inl e \<Rightarrow> []
           | Inr sch \<Rightarrow>
               (case bank_code_mapping g bank of
                  None \<Rightarrow> []
                | Some code \<Rightarrow>
                    if missing_columns sch df = {}
                    then concat (map (\<lambda>row. fst (row_records (to_datetime pd) code tt
                                                  (normalized_columns sch df) row)) (df_rows df))
                    else [])))"
  proof (cases rule: task_effects_cases [where pd = pd and ff = ff and fc = fc and g = g
        and bank = bank and tt = tt and fn = fn])
    case (loop df sch code)
    then show ?thesis
      by (simp add: task_effects_loop Let_def bookings_of_append bookings_of_Logged)
  next
    case no_loop
    have "bookings_of (task_effects pd g fc fn bank tt ff) = []"
      using no_loop by (rule only_logged(1))
    moreover have "\<not> (\<exists>df sch code. snd (read_file pd ff fc) = Inr df
        \<and> schema_lookup g bank tt = Inr sch \<and> missing_columns sch df = {}
        \<and> bank_code_mapping g bank = Some code
        \<and> concat (map (\<lambda>row. fst (row_records (to_datetime pd) code tt
              (normalized_columns sch df) row)) (df_rows df)) \<noteq> [])"
    proof
      assume "\<exists>df sch code. snd (read_file pd ff fc) = Inr df
        \<and> schema_lookup g bank tt = Inr sch \<and> missing_columns sch df = {}
        \<and> bank_code_mapping g bank = Some code
        \<and> concat (map (\<lambda>row. fst (row_records (to_datetime pd) code tt
              (normalized_columns sch df) row)) (df_rows df)) \<noteq> []"
      then obtain df sch code where h: "snd (read_file pd ff fc) = Inr df"
        "schema_lookup g bank tt = Inr sch" "missing_columns sch df = {}"
        "bank_code_mapping g bank = Some code"
        "concat (map (\<lambda>row. fst (row_records (to_datetime pd) code tt
              (normalized_columns sch df) row)) (df_rows df)) \<noteq> []"
        by blast
      from task_effects_loop [OF h(1-4), of fn] h(5)
      have "bookings_of (task_effects pd g fc fn bank tt ff) \<noteq> []"
        by (simp add: Let_def bookings_of_append bookings_of_Logged)
      with \<open>bookings_of (task_effects pd g fc fn bank tt ff) = []\<close> show False by simp
    qed
    ultimately show ?thesis
      by (auto split: sum.splits option.splits)
  qed
  show "refunds_of (task_effects pd g fc fn bank tt ff) =
     (case snd (read_file pd ff fc) of
        Inl e \<Rightarrow> []
      | Inr df \<Rightarrow>
          (case schema_lookup g bank tt of
             Inl e \<Rightarrow> []
           | Inr sch \<Rightarrow>
               (case bank_code_mapping g bank of
                  None \<Rightarrow> []
                | Some code \<Rightarrow>
                    if missing_columns sch df = {}
                    then concat (map (\<lambda>row. snd (row_records (to_datetime pd) code tt
                                                  (normalized_columns sch df) row)) (df_rows df))
                    else [])))"
  proof (cases rule: task_effects_cases [where pd = pd and ff = ff and fc = fc and g = g
        and bank = bank and tt = tt and fn = fn])
    case (loop df sch code)
    then show ?thesis
      by (simp add: task_effects_loop Let_def refunds_of_append refunds_of_Logged)
  next
    case no_loop
    have "refunds_of (task_effects pd g fc fn bank tt ff) = []"
      using no_loop by (rule only_logged(2))
    moreover have "\<not> (\<exists>df sch code. snd (read_file pd ff fc) = Inr df
        \<and> schema_lookup g bank tt = Inr sch \<and> missing_columns sch df = {}
        \<and> bank_code_mapping g bank = Some code
        \<and> concat (map (\<lambda>row. snd (row_records (to_datetime pd) code tt
              (normalized_columns sch df) row)) (df_rows df)) \<noteq> [])"
    proof
      assume "\<exists>df sch code. snd (read_file pd ff fc) = Inr df
        \<and> schema_lookup g bank tt = Inr sch \<and> missing_columns sch df = {}
        \<and> bank_code_mapping g bank = Some code
        \<and> concat (map (\<lambda>row. snd (row_records (to_datetime pd) code tt
              (normalized_columns sch df) row)) (df_rows df)) \<noteq> []"
      then obtain df sch code where h: "snd (read_file pd ff fc) = Inr df"
        "schema_lookup g bank tt = Inr sch" "missing_columns sch df = {}"
        "bank_code_mapping g bank = Some code"
        "concat (map (\<lambda>row. snd (row_records (to_datetime pd) code tt
              (normalized_columns sch df) row)) (df_rows df)) \<noteq> []"
        by blast
      from task_effects_loop [OF h(1-4), of fn] h(5)
      have "refunds_of (task_effects pd g fc fn bank tt ff) \<noteq> []"
        by (simp add: Let_def refunds_of_append refunds_of_Logged)
      with \<open>refunds_of (task_effects pd g fc fn bank tt ff) = []\<close> show False by simp
    qed
    ultimately show ?thesis
      by (auto split: sum.splits option.splits)
  qed
qed

lemma clean_booking_labels:
  "clean_column_name ''TXN DATE'' = ''TXNDATE''"
  "clean_column_name ''IRCTC ORDER NO.'' = ''IRCTCORDERNO''"
  "clean_column_name ''BANK BOOKING REF.NO.'' = ''BANKBOOKINGREFNO''"
  "clean_column_name ''BOOKING AMOUNT'' = ''BOOKINGAMOUNT''"
  "clean_column_name ''CREDITED ON'' = ''CREDITEDON''"
  "clean_column_name ''TXNDATE'' = ''TXNDATE''"
  "clean_column_name ''BANKBOOKINGREFNO'' = ''BANKBOOKINGREFNO''"
  "clean_column_name ''BOOKINGAMOUNT'' = ''BOOKINGAMOUNT''"
  "clean_column_name ''CREDITEDON'' = ''CREDITEDON''"
  "clean_column_name ''IRCTCORDERNO'' = ''IRCTCORDERNO''"
  by (simp_all add: clean_column_name_filter removable_def py_isspace_def)

lemma shipped_karur_vysya:
  "schema_lookup shipped ''karur_vysya'' ''booking'' = Inr karur_vysya_booking"
  "schema_lookup shipped ''karur_vysya'' ''refund'' = Inr karur_vysya_refund"
  "bank_code_mapping shipped ''karur_vysya'' = Some 40"
  by (simp_all add: schema_lookup_def shipped_def BANK_MAPPINGS_def BANK_CODE_MAPPING_def)

lemma booking_table_columns:
  "missing_columns karur_vysya_booking booking_table = {}"
  "normalized_columns karur_vysya_booking booking_table =
     [''transaction_date'', ''irctc_order_no'', ''bank_booking_ref_no'', ''booking_amount'',
      ''credited_date'']"
  by (simp_all add: missing_columns_def normalized_columns_def karur_vysya_booking_def
      booking_table_def clean_booking_labels dict_of_items_def rename_columns_def)

lemma read_table: "snd (read_file table_reader ''csv'' df) = Inr df"
  by (simp add: read_file_def table_reader_def)

lemma read_cell_empty: "read_cell '''' = NA"
  by (simp add: read_cell_def default_na_values_def)

lemma read_cell_numbers: "read_cell ''12345'' = Str ''12345''" "read_cell ''678.0'' = Str ''678.0''"
  by (simp_all add: read_cell_def default_na_values_def)

lemma booking_table_rows:
  "df_rows booking_table = [[Str ''2024-01-05'', Str ''12345'', Str ''678.0'', NA, Str ''2024-01-06'']]"
  by (simp add: booking_table_def read_cell_def default_na_values_def)

lemma normalized_booking_cells:
  "row_get [''transaction_date'', ''irctc_order_no'', ''bank_booking_ref_no'', ''booking_amount'',
      ''credited_date''] [a, b, c, d, e] ''irctc_order_no'' = Scalar b"
  "row_get [''transaction_date'', ''irctc_order_no'', ''bank_booking_ref_no'', ''booking_amount'',
      ''credited_date''] [a, b, c, d, e] ''bank_booking_ref_no'' = Scalar c"
  "row_get [''transaction_date'', ''irctc_order_no'', ''bank_booking_ref_no'', ''booking_amount'',
      ''credited_date''] [a, b, c, d, e] ''booking_amount'' = Scalar d"
  by (simp_all add: row_get_def)

text \<open>
  Claim C1. The amount coercion yields \<open>0.0\<close> on a cell that is absent (\<open>None\<close>), null
  (NaN) or empty (the readers deliver an empty cell as NaN). A booking row with such an
  amount cell whose order number and booking reference are valid for the guard (the
  order number coerces to an integer other than 0, the reference to an integer) yields
  one record, with \<open>booking_amount = 0.0\<close>, and is not skipped; likewise a refund row
  with \<open>refund_amount\<close> and the refund reference. The row read from the texts \<open>12345\<close>,
  \<open>678.0\<close> and the empty text yields the record with order 12345, booking reference 678
  and amount 0, also as a row of a Karur Vysya booking file run through the whole task.
\<close>

theorem null_amount_yields_zero:
  "((x = PyNone \<or> x = Scalar NA \<or> x = Scalar (read_cell '''')) \<longrightarrow> amount_of x = Inr (Finite 0))
   \<and> ((row_get cols row ''booking_amount'' = PyNone \<or> row_get cols row ''booking_amount'' = Scalar NA
         \<or> row_get cols row ''booking_amount'' = Scalar (read_cell ''''))
        \<and> snd (convert_to_int (row_get cols row ''irctc_order_no'')) = Inr (Some n) \<and> n \<noteq> 0
        \<and> snd (convert_to_int (row_get cols row ''bank_booking_ref_no'')) = Inr (Some m)
      \<longrightarrow> row_records td bc ''booking'' cols row =
            ([[(''bank_code'', IntValue bc),
               (''transaction_date'', DateValue (td (row_get cols row ''transaction_date''))),
               (''credited_date'', DateValue (td (row_get cols row ''credited_date''))),
               (''booking_amount'', FloatValue (Finite 0)),
               (''irctc_order_no'', IntValue n),
               (''bank_booking_ref_no'', IntValue m)]], []))
   \<and> ((row_get cols row ''refund_amount'' = PyNone \<or> row_get cols row ''refund_amount'' = Scalar NA
         \<or> row_get cols row ''refund_amount'' = Scalar (read_cell ''''))
        \<and> snd (convert_to_int (row_get cols row ''irctc_order_no'')) = Inr (Some n) \<and> n \<noteq> 0
        \<and> snd (convert_to_int (row_get cols row ''bank_refund_ref_no'')) = Inr (Some m)
        \<and> snd (convert_to_int (row_get cols row ''bank_booking_ref_no'')) = Inr b
      \<longrightarrow> row_records td bc ''refund'' cols row =
            ([], [[(''bank_code'', IntValue bc),
                   (''refund_date'', DateValue (td (row_get cols row ''refund_date''))),
                   (''bank_booking_ref_no'', int_or_none b),
                   (''bank_refund_ref_no'', IntValue m),
                   (''refund_amount'', FloatValue (Finite 0)),
                   (''debited_date'', DateValue (td (row_get cols row ''debited_date''))),
                   (''irctc_order_no'', IntValue n)]]))
   \<and> row_records td bc ''booking'' [''irctc_order_no'', ''bank_booking_ref_no'', ''booking_amount'']
        (map read_cell [''12345'', ''678.0'', '''']) =
       ([[(''bank_code'', IntValue bc),
          (''transaction_date'', DateValue (td PyNone)),
          (''credited_date'', DateValue (td PyNone)),
          (''booking_amount'', FloatValue (Finite 0)),
          (''irctc_order_no'', IntValue 12345),
          (''bank_booking_ref_no'', IntValue 678)]], [])
   \<and> task_effects table_reader shipped booking_table ''b.csv'' ''karur_vysya'' ''booking'' ''csv'' =
       [BulkCreateBookings
          [[(''bank_code'', IntValue 40), (''transaction_date'', DateValue ()),
            (''credited_date'', DateValue ()), (''booking_amount'', FloatValue (Finite 0)),
            (''irctc_order_no'', IntValue 12345), (''bank_booking_ref_no'', IntValue 678)]]]"
proof (intro conjI impI)
  assume "x = PyNone \<or> x = Scalar NA \<or> x = Scalar (read_cell '''')"
  then show "amount_of x = Inr (Finite 0)"
    by (auto simp: amount_of_null read_cell_empty)
next
  assume h: "(row_get cols row ''booking_amount'' = PyNone \<or> row_get cols row ''booking_amount'' = Scalar NA
         \<or> row_get cols row ''booking_amount'' = Scalar (read_cell ''''))
        \<and> snd (convert_to_int (row_get cols row ''irctc_order_no'')) = Inr (Some n) \<and> n \<noteq> 0
        \<and> snd (convert_to_int (row_get cols row ''bank_booking_ref_no'')) = Inr (Some m)"
  then have a: "amount_of (row_get cols row ''booking_amount'') = Inr (Finite 0)"
    by (auto simp: amount_of_null read_cell_empty)
  from h show "row_records td bc ''booking'' cols row =
            ([[(''bank_code'', IntValue bc),
               (''transaction_date'', DateValue (td (row_get cols row ''transaction_date''))),
               (''credited_date'', DateValue (td (row_get cols row ''credited_date''))),
               (''booking_amount'', FloatValue (Finite 0)),
               (''irctc_order_no'', IntValue n),
               (''bank_booking_ref_no'', IntValue m)]], [])"
    by (simp add: row_records_booking(1) [OF a, of "Some n" "Some m"])
next
  assume h: "(row_get cols row ''refund_amount'' = PyNone \<or> row_get cols row ''refund_amount'' = Scalar NA
         \<or> row_get cols row ''refund_amount'' = Scalar (read_cell ''''))
        \<and> snd (convert_to_int (row_get cols row ''irctc_order_no'')) = Inr (Some n) \<and> n \<noteq> 0
        \<and> snd (convert_to_int (row_get cols row ''bank_refund_ref_no'')) = Inr (Some m)
        \<and> snd (convert_to_int (row_get cols row ''bank_booking_ref_no'')) = Inr b"
  then have a: "amount_of (row_get cols row ''refund_amount'') = Inr (Finite 0)"
    by (auto simp: amount_of_null read_cell_empty)
  from h show "row_records td bc ''refund'' cols row =
            ([], [[(''bank_code'', IntValue bc),
                   (''refund_date'', DateValue (td (row_get cols row ''refund_date''))),
                   (''bank_booking_ref_no'', int_or_none b),
                   (''bank_refund_ref_no'', IntValue m),
                   (''refund_amount'', FloatValue (Finite 0)),
                   (''debited_date'', DateValue (td (row_get cols row ''debited_date''))),
                   (''irctc_order_no'', IntValue n)]])"
    by (simp add: row_records_refund(1) [OF a, of "Some n" "Some m" b])
next
  have a: "amount_of (row_get [''irctc_order_no'', ''bank_booking_ref_no'', ''booking_amount'']
      (map read_cell [''12345'', ''678.0'', '''']) ''booking_amount'') = Inr (Finite 0)"
    by (simp add: booking_example_cells read_cell_empty amount_of_null)
  have 1: "snd (convert_to_int (row_get [''irctc_order_no'', ''bank_booking_ref_no'', ''booking_amount'']
      (map read_cell [''12345'', ''678.0'', '''']) ''irctc_order_no'')) = Inr (Some 12345)"
    by (simp add: booking_example_cells read_cell_numbers convert_to_int_12345)
  have 2: "snd (convert_to_int (row_get [''irctc_order_no'', ''bank_booking_ref_no'', ''booking_amount'']
      (map read_cell [''12345'', ''678.0'', '''']) ''bank_booking_ref_no'')) = Inr (Some 678)"
    by (simp add: booking_example_cells read_cell_numbers convert_to_int_678)
  show "row_records td bc ''booking'' [''irctc_order_no'', ''bank_booking_ref_no'', ''booking_amount'']
        (map read_cell [''12345'', ''678.0'', '''']) =
       ([[(''bank_code'', IntValue bc),
          (''transaction_date'', DateValue (td PyNone)),
          (''credited_date'', DateValue (td PyNone)),
          (''booking_amount'', FloatValue (Finite 0)),
          (''irctc_order_no'', IntValue 12345),
          (''bank_booking_ref_no'', IntValue 678)]], [])"
    using row_records_booking(1) [OF a 1 2, of td bc] by (simp add: booking_example_cells)
next
  let ?cols = "[''transaction_date'', ''irctc_order_no'', ''bank_booking_ref_no'', ''booking_amount'',
      ''credited_date'']"
  let ?row = "[Str ''2024-01-05'', Str ''12345'', Str ''678.0'', NA, Str ''2024-01-06'']"
  have a: "amount_of (row_get ?cols ?row ''booking_amount'') = Inr (Finite 0)"
    by (simp add: normalized_booking_cells amount_of_null)
  have 1: "snd (convert_to_int (row_get ?cols ?row ''irctc_order_no'')) = Inr (Some 12345)"
    by (simp add: normalized_booking_cells convert_to_int_12345)
  have 2: "snd (convert_to_int (row_get ?cols ?row ''bank_booking_ref_no'')) = Inr (Some 678)"
    by (simp add: normalized_booking_cells convert_to_int_678)
  have r: "row_records (\<lambda>v. ()) 40 ''booking'' ?cols ?row =
       ([[(''bank_code'', IntValue 40), (''transaction_date'', DateValue ()),
          (''credited_date'', DateValue ()), (''booking_amount'', FloatValue (Finite 0)),
          (''irctc_order_no'', IntValue 12345), (''bank_booking_ref_no'', IntValue 678)]], [])"
    using row_records_booking(1) [OF a 1 2, of "\<lambda>v. ()" 40] by simp
  have l: "row_logs (\<lambda>v. ()) 40 ''booking'' ?cols 0 ?row = []"
    using row_records_booking(2) [OF a 1 2, of "\<lambda>v. ()" 40 0]
    by (simp add: normalized_booking_cells convert_to_int_12345 convert_to_int_678)
  have t: "to_datetime table_reader = (\<lambda>v. ())"
    by (simp add: table_reader_def)
  show "task_effects table_reader shipped booking_table ''b.csv'' ''karur_vysya'' ''booking'' ''csv'' =
       [BulkCreateBookings
          [[(''bank_code'', IntValue 40), (''transaction_date'', DateValue ()),
            (''credited_date'', DateValue ()), (''booking_amount'', FloatValue (Finite 0)),
            (''irctc_order_no'', IntValue 12345), (''bank_booking_ref_no'', IntValue 678)]]]"
    by (simp add: task_effects_loop [OF read_table shipped_karur_vysya(1) booking_table_columns(1)
          shipped_karur_vysya(3)] booking_table_columns(2) booking_table_rows t r l enumerate_eq_zip)
qed

theorem null_amount_yields_zero_witness:
  "row_get [''irctc_order_no'', ''bank_booking_ref_no'', ''booking_amount'']
      (map read_cell [''12345'', ''678.0'', '''']) ''booking_amount'' = Scalar (read_cell '''')
   \<and> amount_of (Scalar (read_cell '''')) = Inr (Finite 0)
   \<and> row_records (\<lambda>v. ()) 40 ''booking'' [''irctc_order_no'', ''bank_booking_ref_no'', ''booking_amount'']
        (map read_cell [''12345'', ''678.0'', '''']) =
       ([[(''bank_code'', IntValue 40), (''transaction_date'', DateValue ()),
          (''credited_date'', DateValue ()), (''booking_amount'', FloatValue (Finite 0)),
          (''irctc_order_no'', IntValue 12345), (''bank_booking_ref_no'', IntValue 678)]], [])
   \<and> row_records (\<lambda>v. ()) 40 ''refund'' [''irctc_order_no'', ''bank_refund_ref_no'', ''refund_amount'']
        (map read_cell [''12345'', ''678.0'', '''']) =
       ([], [[(''bank_code'', IntValue 40), (''refund_date'', DateValue ()),
              (''bank_booking_ref_no'', NoneValue), (''bank_refund_ref_no'', IntValue 678),
              (''refund_amount'', FloatValue (Finite 0)), (''debited_date'', DateValue ()),
              (''irctc_order_no'', IntValue 12345)]])"
proof -
  have n: "(12345::int) \<noteq> 0" by simp
  note b = null_amount_yields_zero
    [of "Scalar (read_cell '''')" "[''irctc_order_no'', ''bank_booking_ref_no'', ''booking_amount'']"
      "map read_cell [''12345'', ''678.0'', '''']" 12345 678 "\<lambda>v. ()" 40 None]
  note r = null_amount_yields_zero
    [of "Scalar (read_cell '''')" "[''irctc_order_no'', ''bank_refund_ref_no'', ''refund_amount'']"
      "map read_cell [''12345'', ''678.0'', '''']" 12345 678 "\<lambda>v. ()" 40 None]
  have 1: "amount_of (Scalar (read_cell '''')) = Inr (Finite 0)"
    using b by blast
  have 2: "row_records (\<lambda>v. ()) 40 ''booking'' [''irctc_order_no'', ''bank_booking_ref_no'', ''booking_amount'']
        (map read_cell [''12345'', ''678.0'', '''']) =
       ([[(''bank_code'', IntValue 40), (''transaction_date'', DateValue ()),
          (''credited_date'', DateValue ()), (''booking_amount'', FloatValue (Finite 0)),
          (''irctc_order_no'', IntValue 12345), (''bank_booking_ref_no'', IntValue 678)]], [])"
    using b n
    by (simp add: booking_example_cells read_cell_numbers convert_to_int_12345 convert_to_int_678)
  have 3: "row_records (\<lambda>v. ()) 40 ''refund'' [''irctc_order_no'', ''bank_refund_ref_no'', ''refund_amount'']
        (map read_cell [''12345'', ''678.0'', '''']) =
       ([], [[(''bank_code'', IntValue 40), (''refund_date'', DateValue ()),
              (''bank_booking_ref_no'', NoneValue), (''bank_refund_ref_no'', IntValue 678),
              (''refund_amount'', FloatValue (Finite 0)), (''debited_date'', DateValue ()),
              (''irctc_order_no'', IntValue 12345)]])"
    using r n
    by (simp add: refund_example_cells read_cell_numbers convert_to_int_12345 convert_to_int_678
        convert_to_int_PyNone)
  show ?thesis
    using 1 2 3 by (simp add: booking_example_cells)
qed

text \<open>
  The guard of the amount is \<open>pd.notnull\<close> alone. A cell holding the empty text itself,
  which the readers never deliver, would be present for it and make \<open>float\<close> raise.
\<close>

lemma empty_text_amount_raises:
  "amount_of (Scalar (Str '''')) = Inl (CouldNotConvert '''')"
  by (simp add: amount_of_Str py_float_def parse_float_empty)

lemma columns_only:
  assumes "df_columns df' = df_columns df"
  shows "missing_columns sch df' = missing_columns sch df"
    and "normalized_columns sch df' = normalized_columns sch df"
  using assms by (simp_all add: missing_columns_def normalized_columns_def)

text \<open>
  Claim C9. The batch the loop builds is the concatenation, in row order, of what each
  row contributes, and a row's contribution depends on that row alone (not on its
  index, nor on the other rows or the lists built so far). So a permutation of the rows
  gives the correspondingly permuted batch, the same multiset of records, in the loop
  and in the batches the task hands to the persistence layer.
\<close>

theorem rows_are_independent:
  "fst (iterrows td bc tt cols i rows (bs, rs, lg)) =
      bs @ concat (map (\<lambda>row. fst (row_records td bc tt cols row)) rows)
   \<and> fst (snd (iterrows td bc tt cols i rows (bs, rs, lg))) =
      rs @ concat (map (\<lambda>row. snd (row_records td bc tt cols row)) rows)
   \<and> (mset rows' = mset rows \<longrightarrow>
        mset (fst (iterrows td bc tt cols j rows' ([], [], [])))
          = mset (fst (iterrows td bc tt cols i rows ([], [], [])))
        \<and> mset (fst (snd (iterrows td bc tt cols j rows' ([], [], []))))
          = mset (fst (snd (iterrows td bc tt cols i rows ([], [], [])))))
   \<and> (snd (read_file pd ff fc) = Inr df \<and> snd (read_file pd ff fc') = Inr df'
        \<and> df_columns df' = df_columns df \<and> mset (df_rows df') = mset (df_rows df) \<longrightarrow>
        mset (bookings_of (task_effects pd g fc' fn bank tt ff))
          = mset (bookings_of (task_effects pd g fc fn bank tt ff))
        \<and> mset (refunds_of (task_effects pd g fc' fn bank tt ff))
          = mset (refunds_of (task_effects pd g fc fn bank tt ff)))"
proof (intro conjI impI)
  show "fst (iterrows td bc tt cols i rows (bs, rs, lg)) =
      bs @ concat (map (\<lambda>row. fst (row_records td bc tt cols row)) rows)"
    by (simp add: iterrows_lists)
  show "fst (snd (iterrows td bc tt cols i rows (bs, rs, lg))) =
      rs @ concat (map (\<lambda>row. snd (row_records td bc tt cols row)) rows)"
    by (simp add: iterrows_lists)
next
  assume p: "mset rows' = mset rows"
  show "mset (fst (iterrows td bc tt cols j rows' ([], [], [])))
          = mset (fst (iterrows td bc tt cols i rows ([], [], [])))"
    by (simp add: iterrows_lists mset_concat_map [OF p])
  show "mset (fst (snd (iterrows td bc tt cols j rows' ([], [], []))))
          = mset (fst (snd (iterrows td bc tt cols i rows ([], [], []))))"
    by (simp add: iterrows_lists mset_concat_map [OF p])
next
  assume h: "snd (read_file pd ff fc) = Inr df \<and> snd (read_file pd ff fc') = Inr df'
        \<and> df_columns df' = df_columns df \<and> mset (df_rows df') = mset (df_rows df)"
  then have c: "df_columns df' = df_columns df" and p: "mset (df_rows df') = mset (df_rows df)"
    by simp_all
  from h show "mset (bookings_of (task_effects pd g fc' fn bank tt ff))
          = mset (bookings_of (task_effects pd g fc fn bank tt ff))"
    by (simp add: task_effects_batches columns_only [OF c] mset_concat_map [OF p]
        split: sum.splits option.splits)
  from h show "mset (refunds_of (task_effects pd g fc' fn bank tt ff))
          = mset (refunds_of (task_effects pd g fc fn bank tt ff))"
    by (simp add: task_effects_batches columns_only [OF c] mset_concat_map [OF p]
        split: sum.splits option.splits)
qed

lemma swapped_rows: "mset [bad_refund_row, good_refund_row] = mset [good_refund_row, bad_refund_row]"
  by simp

theorem rows_are_independent_witness:
  "mset [bad_refund_row, good_refund_row] = mset [good_refund_row, bad_refund_row]
   \<and> mset (fst (snd (iterrows (\<lambda>v. ()) 40 ''refund'' refund_columns 0
              [bad_refund_row, good_refund_row] ([], [], []))))
       = mset (fst (snd (iterrows (\<lambda>v. ()) 40 ''refund'' refund_columns 0
              [good_refund_row, bad_refund_row] ([], [], []))))
   \<and> snd (read_file table_reader ''csv''
          \<lparr>df_columns = refund_columns, df_rows = [good_refund_row, bad_refund_row]\<rparr>)
       = Inr \<lparr>df_columns = refund_columns, df_rows = [good_refund_row, bad_refund_row]\<rparr>
   \<and> mset (refunds_of (task_effects table_reader shipped
          \<lparr>df_columns = refund_columns, df_rows = [bad_refund_row, good_refund_row]\<rparr>
          ''r.csv'' ''karur_vysya'' ''refund'' ''csv''))
       = mset (refunds_of (task_effects table_reader shipped
          \<lparr>df_columns = refund_columns, df_rows = [good_refund_row, bad_refund_row]\<rparr>
          ''r.csv'' ''karur_vysya'' ''refund'' ''csv''))"
proof -
  let ?a = "\<lparr>df_columns = refund_columns, df_rows = [good_refund_row, bad_refund_row]\<rparr>"
  let ?b = "\<lparr>df_columns = refund_columns, df_rows = [bad_refund_row, good_refund_row]\<rparr>"
  note t = rows_are_independent [of "\<lambda>v. ()" 40 "''refund''" refund_columns 0
      "[good_refund_row, bad_refund_row]" "[]" "[]" "[]" "[bad_refund_row, good_refund_row]" 0
      table_reader "''csv''" ?a ?a ?b ?b shipped "''r.csv''" "''karur_vysya''"]
  have c: "df_columns ?b = df_columns ?a" by simp
  have p: "mset (df_rows ?b) = mset (df_rows ?a)" by simp
  have 1: "mset (fst (snd (iterrows (\<lambda>v. ()) 40 ''refund'' refund_columns 0
              [bad_refund_row, good_refund_row] ([], [], []))))
       = mset (fst (snd (iterrows (\<lambda>v. ()) 40 ''refund'' refund_columns 0
              [good_refund_row, bad_refund_row] ([], [], []))))"
    using t swapped_rows by blast
  have 2: "mset (refunds_of (task_effects table_reader shipped ?b ''r.csv'' ''karur_vysya'' ''refund'' ''csv''))
       = mset (refunds_of (task_effects table_reader shipped ?a ''r.csv'' ''karur_vysya'' ''refund'' ''csv''))"
    using t read_table [of ?a] read_table [of ?b] c p by blast
  show ?thesis
    using 1 2 read_table [of ?a] swapped_rows by blast
qed

lemma iterrows_append:
  "iterrows td bc tt cols i (rows1 @ rows2) state =
     iterrows td bc tt cols (i + length rows1) rows2 (iterrows td bc tt cols i rows1 state)"
  by (induction rows1 arbitrary: i state) simp_all

lemma garbled_refund_row:
  assumes "row_get cols bad ''refund_amount'' = Scalar (Str s)" and "parse_float s = None"
  shows "row_records td bc ''refund'' cols bad = ([], [])"
    and "row_logs td bc ''refund'' cols k bad =
      fst (convert_to_int (row_get cols bad ''bank_booking_ref_no''))
      @ fst (convert_to_int (row_get cols bad ''bank_refund_ref_no''))
      @ [RowError k bad (CouldNotConvert s)]"
proof -
  have a: "amount_of (row_get cols bad ''refund_amount'') = Inl (CouldNotConvert s)"
    using assms by (simp add: amount_of_Str py_float_def)
  show "row_records td bc ''refund'' cols bad = ([], [])"
    by (rule row_records_refund_raise(1) [OF a])
  show "row_logs td bc ''refund'' cols k bad =
      fst (convert_to_int (row_get cols bad ''bank_booking_ref_no''))
      @ fst (convert_to_int (row_get cols bad ''bank_refund_ref_no''))
      @ [RowError k bad (CouldNotConvert s)]"
    by (rule row_records_refund_raise(2) [OF a])
qed

lemma iterrows_logs_member:
  assumes "x \<in> set (row_logs td bc tt cols (i + length rows1) bad)"
  shows "x \<in> set (snd (snd (iterrows td bc tt cols i (rows1 @ bad # rows2) (bs, rs, lg))))"
proof -
  obtain b1 r1 l1 where s1: "iterrows td bc tt cols i rows1 (bs, rs, lg) = (b1, r1, l1)"
    by (cases "iterrows td bc tt cols i rows1 (bs, rs, lg)")
  have e: "iterrows td bc tt cols i (rows1 @ bad # rows2) (bs, rs, lg) =
      iterrows td bc tt cols (Suc (i + length rows1)) rows2
        (b1 @ fst (row_records td bc tt cols bad), r1 @ snd (row_records td bc tt cols bad),
         l1 @ row_logs td bc tt cols (i + length rows1) bad)"
    by (simp add: iterrows_append s1 row_step_lists)
  show ?thesis
    using assms unfolding e by (simp add: iterrows_lists)
qed

lemma task_effects_parsed:
  assumes "snd (read_file pd ff fc) = Inr df" and "schema_lookup g bank tt = Inr sch"
  shows "task_effects pd g fc fn bank tt ff =
     (if missing_columns sch df \<noteq> {}
      then [Logged (MissingColumnsLog fn (missing_columns sch df)),
            Logged (FileError fn (MissingColumns (missing_columns sch df)))]
      else (case bank_code_mapping g bank of
              None \<Rightarrow> [Logged (BankCodeNotFound bank)]
            | Some code \<Rightarrow>
                (let bs = concat (map (\<lambda>row. fst (row_records (to_datetime pd) code tt (normalized_columns sch df) row)) (df_rows df));
                     rs = concat (map (\<lambda>row. snd (row_records (to_datetime pd) code tt (normalized_columns sch df) row)) (df_rows df))
                 in map Logged (concat (map (\<lambda>(k, row). row_logs (to_datetime pd) code tt (normalized_columns sch df) k row)
                                         (enumerate 0 (df_rows df))))
                    @ (if bs \<noteq> [] then [BulkCreateBookings bs] else [])
                    @ (if rs \<noteq> [] then [BulkCreateRefunds rs] else []))))"
proof -
  from assms(1) have r: "read_file pd ff fc = ([], Inr df)"
    using read_file_Inr [of pd ff fc "fst (read_file pd ff fc)" df] by (simp add: prod_eq_iff)
  show ?thesis
  proof (cases "missing_columns sch df = {} \<and> bank_code_mapping g bank \<noteq> None")
    case True
    then obtain code where "bank_code_mapping g bank = Some code" by auto
    with True task_effects_loop [OF assms(1,2), of code fn] show ?thesis by simp
  next
    case False
    with assms(2) show ?thesis
      by (auto simp: task_effects_unfold r missing_columns_def split: option.splits)
  qed
qed

lemma loop_no_file_error:
  assumes "snd (read_file pd ff fc) = Inr df" and "schema_lookup g bank tt = Inr sch"
    and "missing_columns sch df = {}" and "bank_code_mapping g bank = Some code"
  shows "Logged (FileError fn e) \<notin> set (task_effects pd g fc fn bank tt ff)"
proof
  assume "Logged (FileError fn e) \<in> set (task_effects pd g fc fn bank tt ff)"
  then have "\<exists>k row. FileError fn e \<in> set (row_logs (to_datetime pd) code tt (normalized_columns sch df) k row)"
    by (auto simp: task_effects_loop [OF assms] Let_def split: if_splits)
  then show False
    by (auto dest: row_logs_kinds simp: is_row_log_def)
qed

lemma concat_without_empty:
  "f bad = [] \<Longrightarrow> concat (map f (rows1 @ bad # rows2)) = concat (map f (rows1 @ rows2))"
  by simp

text \<open>
  Claim C3. A refund row whose \<open>refund_amount\<close> cell holds a text that \<open>float\<close> rejects
  raises inside the row's \<open>try\<close>: the row contributes no record and the error is logged
  with the row's index. The lists the loop builds from a table with such a row in it
  are those it builds from the table without the row, so every other row counts as it
  would were the failing row absent. In the task, the batches handed to the persistence
  layer are the same with and without the row, a file-level error occurs with the row
  exactly when it occurs without it, and when the loop is reached there is none.
\<close>

theorem row_failure_is_contained:
  "(row_get cols bad ''refund_amount'' = Scalar (Str s) \<and> parse_float s = None \<longrightarrow>
      row_records td bc ''refund'' cols bad = ([], [])
      \<and> row_logs td bc ''refund'' cols k bad =
          fst (convert_to_int (row_get cols bad ''bank_booking_ref_no''))
          @ fst (convert_to_int (row_get cols bad ''bank_refund_ref_no''))
          @ [RowError k bad (CouldNotConvert s)]
      \<and> fst (iterrows td bc ''refund'' cols i (earlier @ bad # later) (bs, rs, lg))
          = fst (iterrows td bc ''refund'' cols i (earlier @ later) (bs, rs, lg))
      \<and> fst (snd (iterrows td bc ''refund'' cols i (earlier @ bad # later) (bs, rs, lg)))
          = fst (snd (iterrows td bc ''refund'' cols i (earlier @ later) (bs, rs, lg)))
      \<and> RowError (i + length earlier) bad (CouldNotConvert s)
          \<in> set (snd (snd (iterrows td bc ''refund'' cols i (earlier @ bad # later) (bs, rs, lg)))))
   \<and> (snd (read_file pd ff fc) = Inr df \<and> snd (read_file pd ff fc') = Inr df'
        \<and> df_columns df' = df_columns df
        \<and> df_rows df = earlier @ bad # later \<and> df_rows df' = earlier @ later
        \<and> schema_lookup g bank ''refund'' = Inr sch
        \<and> row_get (normalized_columns sch df) bad ''refund_amount'' = Scalar (Str s)
        \<and> parse_float s = None
      \<longrightarrow> refunds_of (task_effects pd g fc fn bank ''refund'' ff)
            = refunds_of (task_effects pd g fc' fn bank ''refund'' ff)
          \<and> bookings_of (task_effects pd g fc fn bank ''refund'' ff)
            = bookings_of (task_effects pd g fc' fn bank ''refund'' ff)
          \<and> (\<forall>e. Logged (FileError fn e) \<in> set (task_effects pd g fc fn bank ''refund'' ff)
                \<longleftrightarrow> Logged (FileError fn e) \<in> set (task_effects pd g fc' fn bank ''refund'' ff))
          \<and> (missing_columns sch df = {} \<and> bank_code_mapping g bank \<noteq> None \<longrightarrow>
                Logged (RowError (length earlier) bad (CouldNotConvert s))
                  \<in> set (task_effects pd g fc fn bank ''refund'' ff)
                \<and> (\<forall>e. Logged (FileError fn e) \<notin> set (task_effects pd g fc fn bank ''refund'' ff))))"
proof (intro conjI impI allI)
  assume h: "row_get cols bad ''refund_amount'' = Scalar (Str s) \<and> parse_float s = None"
  then have g1: "row_get cols bad ''refund_amount'' = Scalar (Str s)" and g2: "parse_float s = None"
    by simp_all
  note r = garbled_refund_row [OF g1 g2]
  show "row_records td bc ''refund'' cols bad = ([], [])" by (rule r(1))
  show "row_logs td bc ''refund'' cols k bad =
          fst (convert_to_int (row_get cols bad ''bank_booking_ref_no''))
          @ fst (convert_to_int (row_get cols bad ''bank_refund_ref_no''))
          @ [RowError k bad (CouldNotConvert s)]" by (rule r(2))
  show "fst (iterrows td bc ''refund'' cols i (earlier @ bad # later) (bs, rs, lg))
          = fst (iterrows td bc ''refund'' cols i (earlier @ later) (bs, rs, lg))"
    by (simp add: iterrows_lists r(1))
  show "fst (snd (iterrows td bc ''refund'' cols i (earlier @ bad # later) (bs, rs, lg)))
          = fst (snd (iterrows td bc ''refund'' cols i (earlier @ later) (bs, rs, lg)))"
    by (simp add: iterrows_lists r(1))
  show "RowError (i + length earlier) bad (CouldNotConvert s)
          \<in> set (snd (snd (iterrows td bc ''refund'' cols i (earlier @ bad # later) (bs, rs, lg))))"
    by (rule iterrows_logs_member) (simp add: r(2))
next
  fix e
  assume h: "snd (read_file pd ff fc) = Inr df \<and> snd (read_file pd ff fc') = Inr df'
        \<and> df_columns df' = df_columns df
        \<and> df_rows df = earlier @ bad # later \<and> df_rows df' = earlier @ later
        \<and> schema_lookup g bank ''refund'' = Inr sch
        \<and> row_get (normalized_columns sch df) bad ''refund_amount'' = Scalar (Str s)
        \<and> parse_float s = None"
  then have rd: "snd (read_file pd ff fc) = Inr df" and rd': "snd (read_file pd ff fc') = Inr df'"
    and c: "df_columns df' = df_columns df"
    and rows: "df_rows df = earlier @ bad # later" and rows': "df_rows df' = earlier @ later"
    and sch: "schema_lookup g bank ''refund'' = Inr sch"
    and g1: "row_get (normalized_columns sch df) bad ''refund_amount'' = Scalar (Str s)"
    and g2: "parse_float s = None"
    by simp_all
  note r = garbled_refund_row [OF g1 g2]
  note p = task_effects_parsed [OF rd sch, of fn] task_effects_parsed [OF rd' sch, of fn]
  show "Logged (FileError fn e) \<in> set (task_effects pd g fc fn bank ''refund'' ff)
        \<longleftrightarrow> Logged (FileError fn e) \<in> set (task_effects pd g fc' fn bank ''refund'' ff)"
  proof (cases "missing_columns sch df = {} \<and> bank_code_mapping g bank \<noteq> None")
    case True
    then obtain code where code: "bank_code_mapping g bank = Some code" and m: "missing_columns sch df = {}"
      by auto
    from m have m': "missing_columns sch df' = {}" by (simp add: columns_only [OF c])
    show ?thesis
      using loop_no_file_error [OF rd sch m code] loop_no_file_error [OF rd' sch m' code] by simp
  next
    case False
    then show ?thesis
      by (auto simp: p columns_only [OF c] split: option.splits)
  qed
next
  assume h: "snd (read_file pd ff fc) = Inr df \<and> snd (read_file pd ff fc') = Inr df'
        \<and> df_columns df' = df_columns df
        \<and> df_rows df = earlier @ bad # later \<and> df_rows df' = earlier @ later
        \<and> schema_lookup g bank ''refund'' = Inr sch
        \<and> row_get (normalized_columns sch df) bad ''refund_amount'' = Scalar (Str s)
        \<and> parse_float s = None"
  then have rd: "snd (read_file pd ff fc) = Inr df" and rd': "snd (read_file pd ff fc') = Inr df'"
    and c: "df_columns df' = df_columns df"
    and rows: "df_rows df = earlier @ bad # later" and rows': "df_rows df' = earlier @ later"
    and sch: "schema_lookup g bank ''refund'' = Inr sch"
    and g1: "row_get (normalized_columns sch df) bad ''refund_amount'' = Scalar (Str s)"
    and g2: "parse_float s = None"
    by simp_all
  note r = garbled_refund_row [OF g1 g2]
  show "refunds_of (task_effects pd g fc fn bank ''refund'' ff)
            = refunds_of (task_effects pd g fc' fn bank ''refund'' ff)"
    using rd rd' sch
    by (simp add: task_effects_batches columns_only [OF c] rows rows' r(1) split: option.splits)
  show "bookings_of (task_effects pd g fc fn bank ''refund'' ff)
            = bookings_of (task_effects pd g fc' fn bank ''refund'' ff)"
    using rd rd' sch
    by (simp add: task_effects_batches columns_only [OF c] rows rows' r(1) split: option.splits)
  {
    assume l: "missing_columns sch df = {} \<and> bank_code_mapping g bank \<noteq> None"
    then obtain code where code: "bank_code_mapping g bank = Some code" and m: "missing_columns sch df = {}"
      by auto
    have "RowError (0 + length earlier) bad (CouldNotConvert s)
        \<in> set (snd (snd (iterrows (to_datetime pd) code ''refund'' (normalized_columns sch df) 0
                (earlier @ bad # later) ([], [], []))))"
      by (rule iterrows_logs_member) (simp add: r(2))
    then show "Logged (RowError (length earlier) bad (CouldNotConvert s))
        \<in> set (task_effects pd g fc fn bank ''refund'' ff)"
      by (simp add: task_effects_loop [OF rd sch m code] Let_def iterrows_lists rows image_iff)
    show "Logged (FileError fn e) \<notin> set (task_effects pd g fc fn bank ''refund'' ff)" for e
      by (rule loop_no_file_error [OF rd sch m code])
  }
qed

lemma clean_refund_labels:
  "clean_column_name ''REFUND DATE'' = ''REFUNDDATE''"
  "clean_column_name ''BANK REFUND REF.NO.'' = ''BANKREFUNDREFNO''"
  "clean_column_name ''REFUND AMOUNT'' = ''REFUNDAMOUNT''"
  "clean_column_name ''DEBITED ON'' = ''DEBITEDON''"
  "clean_column_name ''REFUNDDATE'' = ''REFUNDDATE''"
  "clean_column_name ''BANKREFUNDREFNO'' = ''BANKREFUNDREFNO''"
  "clean_column_name ''REFUNDAMOUNT'' = ''REFUNDAMOUNT''"
  "clean_column_name ''DEBITEDON'' = ''DEBITEDON''"
  by (simp_all add: clean_column_name_filter removable_def py_isspace_def)

lemma refund_table_columns:
  "missing_columns karur_vysya_refund (refund_table rows) = {}"
  "normalized_columns karur_vysya_refund (refund_table rows) =
     [''refund_date'', ''irctc_order_no'', ''bank_booking_ref_no'', ''bank_refund_ref_no'',
      ''refund_amount'', ''debited_date'']"
  by (simp_all add: missing_columns_def normalized_columns_def karur_vysya_refund_def
      refund_table_def clean_booking_labels clean_refund_labels dict_of_items_def rename_columns_def)

lemma bad_refund_cells_amount:
  "row_get [''refund_date'', ''irctc_order_no'', ''bank_booking_ref_no'', ''bank_refund_ref_no'',
      ''refund_amount'', ''debited_date''] bad_refund_cells ''refund_amount'' = Scalar (Str ''abc'')"
  by (simp add: row_get_def bad_refund_cells_def read_cell_def default_na_values_def)

lemma bad_refund_row_amount:
  "row_get refund_columns bad_refund_row ''refund_amount'' = Scalar (Str ''abc'')"
  by (simp add: refund_columns_def bad_refund_row_def refund_example_cells)

theorem row_failure_is_contained_witness:
  "row_get refund_columns bad_refund_row ''refund_amount'' = Scalar (Str ''abc'')
   \<and> parse_float ''abc'' = None
   \<and> row_records (\<lambda>v. ()) 40 ''refund'' refund_columns bad_refund_row = ([], [])
   \<and> fst (snd (iterrows (\<lambda>v. ()) 40 ''refund'' refund_columns 0
          ([good_refund_row] @ bad_refund_row # [good_refund_row]) ([], [], [])))
       = fst (snd (iterrows (\<lambda>v. ()) 40 ''refund'' refund_columns 0
          ([good_refund_row] @ [good_refund_row]) ([], [], [])))
   \<and> RowError 1 bad_refund_row (CouldNotConvert ''abc'')
       \<in> set (snd (snd (iterrows (\<lambda>v. ()) 40 ''refund'' refund_columns 0
          ([good_refund_row] @ bad_refund_row # [good_refund_row]) ([], [], []))))
   \<and> refunds_of (task_effects table_reader shipped
          (refund_table ([good_refund_cells] @ bad_refund_cells # [good_refund_cells]))
          ''r.csv'' ''karur_vysya'' ''refund'' ''csv'')
       = refunds_of (task_effects table_reader shipped
          (refund_table ([good_refund_cells] @ [good_refund_cells]))
          ''r.csv'' ''karur_vysya'' ''refund'' ''csv'')
   \<and> Logged (RowError 1 bad_refund_cells (CouldNotConvert ''abc''))
       \<in> set (task_effects table_reader shipped
          (refund_table ([good_refund_cells] @ bad_refund_cells # [good_refund_cells]))
          ''r.csv'' ''karur_vysya'' ''refund'' ''csv'')
   \<and> (\<forall>e. Logged (FileError ''r.csv'' e)
       \<notin> set (task_effects table_reader shipped
          (refund_table ([good_refund_cells] @ bad_refund_cells # [good_refund_cells]))
          ''r.csv'' ''karur_vysya'' ''refund'' ''csv''))"
proof -
  let ?df = "refund_table ([good_refund_cells] @ bad_refund_cells # [good_refund_cells])"
  let ?df' = "refund_table ([good_refund_cells] @ [good_refund_cells])"
  note a = row_failure_is_contained [of refund_columns bad_refund_row "''abc''" "\<lambda>v. ()" 40 1 0
      "[good_refund_row]" "[good_refund_row]" "[]" "[]" "[]"]
  note b = row_failure_is_contained [where pd = table_reader and ff = "''csv''" and fc = ?df
      and df = ?df and fc' = ?df' and df' = ?df' and earlier = "[good_refund_cells]"
      and bad = bad_refund_cells and later = "[good_refund_cells]" and g = shipped
      and bank = "''karur_vysya''" and sch = karur_vysya_refund and s = "''abc''"
      and fn = "''r.csv''"]
  have h1: "row_get refund_columns bad_refund_row ''refund_amount'' = Scalar (Str ''abc'')
      \<and> parse_float ''abc'' = None"
    by (simp add: bad_refund_row_amount parse_float_abc)
  have h2: "snd (read_file table_reader ''csv'' ?df) = Inr ?df
      \<and> snd (read_file table_reader ''csv'' ?df') = Inr ?df'
      \<and> df_columns ?df' = df_columns ?df
      \<and> df_rows ?df = [good_refund_cells] @ bad_refund_cells # [good_refund_cells]
      \<and> df_rows ?df' = [good_refund_cells] @ [good_refund_cells]
      \<and> schema_lookup shipped ''karur_vysya'' ''refund'' = Inr karur_vysya_refund
      \<and> row_get (normalized_columns karur_vysya_refund ?df) bad_refund_cells ''refund_amount''
          = Scalar (Str ''abc'')
      \<and> parse_float ''abc'' = None"
    by (simp add: read_table shipped_karur_vysya refund_table_columns bad_refund_cells_amount
        parse_float_abc) (simp add: refund_table_def)
  have h3: "missing_columns karur_vysya_refund ?df = {}
      \<and> bank_code_mapping shipped ''karur_vysya'' \<noteq> None"
    by (simp add: refund_table_columns shipped_karur_vysya)
  from a [THEN conjunct1] h1 have 1: "row_records (\<lambda>v. ()) 40 ''refund'' refund_columns bad_refund_row = ([], [])
   \<and> fst (snd (iterrows (\<lambda>v. ()) 40 ''refund'' refund_columns 0
          ([good_refund_row] @ bad_refund_row # [good_refund_row]) ([], [], [])))
       = fst (snd (iterrows (\<lambda>v. ()) 40 ''refund'' refund_columns 0
          ([good_refund_row] @ [good_refund_row]) ([], [], [])))
   \<and> RowError (0 + length [good_refund_row]) bad_refund_row (CouldNotConvert ''abc'')
       \<in> set (snd (snd (iterrows (\<lambda>v. ()) 40 ''refund'' refund_columns 0
          ([good_refund_row] @ bad_refund_row # [good_refund_row]) ([], [], []))))"
    by blast
  from b [THEN conjunct2] h2 h3 have 2: "refunds_of (task_effects table_reader shipped ?df
          ''r.csv'' ''karur_vysya'' ''refund'' ''csv'')
       = refunds_of (task_effects table_reader shipped ?df'
          ''r.csv'' ''karur_vysya'' ''refund'' ''csv'')
   \<and> Logged (RowError (length [good_refund_cells]) bad_refund_cells (CouldNotConvert ''abc''))
       \<in> set (task_effects table_reader shipped ?df ''r.csv'' ''karur_vysya'' ''refund'' ''csv'')
   \<and> (\<forall>e. Logged (FileError ''r.csv'' e)
       \<notin> set (task_effects table_reader shipped ?df ''r.csv'' ''karur_vysya'' ''refund'' ''csv''))"
    by blast
  from h1 1 2 show ?thesis by simp
qed

lemma parsed_iff:
  "snd (read_file pd ff fc) = Inr df \<longleftrightarrow>
     (ff = ''excel'' \<and> read_excel pd fc = Inr df) \<or> (ff = ''csv'' \<and> read_csv pd fc = Inr df)"
  by (auto simp: read_file_def)

text \<open>
  Claim C6. When the file parses to a table that, after cleaning, lacks a required
  cleaned column of the schema of the (bank, transaction type) pair, the invocation
  writes the warning and fails with the \<open>ValueError\<close> "Missing columns after cleaning"
  (the specification's SchemaMismatch), which names exactly the required cleaned columns
  that are not among the cleaned columns of the table; the file-level handler logs it,
  no row is processed and nothing is handed to the persistence layer.
\<close>

theorem missing_columns_fail:
  "((ff = ''excel'' \<and> read_excel pd fc = Inr df) \<or> (ff = ''csv'' \<and> read_csv pd fc = Inr df))
   \<and> schema_lookup g bank tt = Inr sch
   \<and> set (map clean_column_name (columns sch)) - set (map clean_column_name (df_columns df)) \<noteq> {}
   \<longrightarrow>
     task_effects pd g fc fn bank tt ff =
       [Logged (MissingColumnsLog fn
          (set (map clean_column_name (columns sch)) - set (map clean_column_name (df_columns df)))),
        Logged (FileError fn (MissingColumns
          (set (map clean_column_name (columns sch)) - set (map clean_column_name (df_columns df)))))]
     \<and> bookings_of (task_effects pd g fc fn bank tt ff) = []
     \<and> refunds_of (task_effects pd g fc fn bank tt ff) = []
     \<and> (\<forall>x. BulkCreateBookings x \<notin> set (task_effects pd g fc fn bank tt ff)
            \<and> BulkCreateRefunds x \<notin> set (task_effects pd g fc fn bank tt ff))
     \<and> (module_state w = g \<longrightarrow>
          history (process_uploaded_files pd fc fn bank tt ff w) =
            history w @
            [Logged (MissingColumnsLog fn
               (set (map clean_column_name (columns sch)) - set (map clean_column_name (df_columns df)))),
             Logged (FileError fn (MissingColumns
               (set (map clean_column_name (columns sch)) - set (map clean_column_name (df_columns df)))))])"
proof (intro impI)
  assume h: "((ff = ''excel'' \<and> read_excel pd fc = Inr df) \<or> (ff = ''csv'' \<and> read_csv pd fc = Inr df))
   \<and> schema_lookup g bank tt = Inr sch
   \<and> set (map clean_column_name (columns sch)) - set (map clean_column_name (df_columns df)) \<noteq> {}"
  then have rd: "snd (read_file pd ff fc) = Inr df" by (simp add: parsed_iff)
  from h have sch: "schema_lookup g bank tt = Inr sch" by simp
  from h have m: "missing_columns sch df \<noteq> {}" by (simp add: missing_columns_def)
  have e: "task_effects pd g fc fn bank tt ff =
       [Logged (MissingColumnsLog fn
          (set (map clean_column_name (columns sch)) - set (map clean_column_name (df_columns df)))),
        Logged (FileError fn (MissingColumns
          (set (map clean_column_name (columns sch)) - set (map clean_column_name (df_columns df)))))]"
    using m by (simp add: task_effects_parsed [OF rd sch]) (simp add: missing_columns_def)
  show "task_effects pd g fc fn bank tt ff =
       [Logged (MissingColumnsLog fn
          (set (map clean_column_name (columns sch)) - set (map clean_column_name (df_columns df)))),
        Logged (FileError fn (MissingColumns
          (set (map clean_column_name (columns sch)) - set (map clean_column_name (df_columns df)))))]
     \<and> bookings_of (task_effects pd g fc fn bank tt ff) = []
     \<and> refunds_of (task_effects pd g fc fn bank tt ff) = []
     \<and> (\<forall>x. BulkCreateBookings x \<notin> set (task_effects pd g fc fn bank tt ff)
            \<and> BulkCreateRefunds x \<notin> set (task_effects pd g fc fn bank tt ff))
     \<and> (module_state w = g \<longrightarrow>
          history (process_uploaded_files pd fc fn bank tt ff w) =
            history w @
            [Logged (MissingColumnsLog fn
               (set (map clean_column_name (columns sch)) - set (map clean_column_name (df_columns df)))),
             Logged (FileError fn (MissingColumns
               (set (map clean_column_name (columns sch)) - set (map clean_column_name (df_columns df)))))])"
    by (simp add: e process_uploaded_files_def)
qed

lemma incomplete_table_labels:
  "clean_column_name ''Txn Date'' = ''TxnDate''"
  "clean_column_name ''IRCTC ORDER NO'' = ''IRCTCORDERNO''"
  "clean_column_name ''BOOKING_AMOUNT'' = ''BOOKINGAMOUNT''"
  by (simp_all add: clean_column_name_filter removable_def py_isspace_def)

lemma incomplete_table_missing:
  "set (map clean_column_name (columns karur_vysya_booking))
     - set (map clean_column_name (df_columns incomplete_table))
   = {''TXNDATE'', ''BANKBOOKINGREFNO'', ''CREDITEDON''}"
  by (auto simp: karur_vysya_booking_def incomplete_table_def clean_booking_labels
      incomplete_table_labels)

theorem missing_columns_fail_witness:
  "read_csv table_reader incomplete_table = Inr incomplete_table
   \<and> schema_lookup shipped ''karur_vysya'' ''booking'' = Inr karur_vysya_booking
   \<and> set (map clean_column_name (columns karur_vysya_booking))
        - set (map clean_column_name (df_columns incomplete_table))
      = {''TXNDATE'', ''BANKBOOKINGREFNO'', ''CREDITEDON''}
   \<and> task_effects table_reader shipped incomplete_table ''i.csv'' ''karur_vysya'' ''booking'' ''csv'' =
       [Logged (MissingColumnsLog ''i.csv'' {''TXNDATE'', ''BANKBOOKINGREFNO'', ''CREDITEDON''}),
        Logged (FileError ''i.csv'' (MissingColumns {''TXNDATE'', ''BANKBOOKINGREFNO'', ''CREDITEDON''}))]
   \<and> history (process_uploaded_files table_reader incomplete_table ''i.csv'' ''karur_vysya''
        ''booking'' ''csv'' \<lparr>module_state = shipped, history = []\<rparr>) =
       [Logged (MissingColumnsLog ''i.csv'' {''TXNDATE'', ''BANKBOOKINGREFNO'', ''CREDITEDON''}),
        Logged (FileError ''i.csv'' (MissingColumns {''TXNDATE'', ''BANKBOOKINGREFNO'', ''CREDITEDON''}))]"
proof -
  have r: "read_csv table_reader incomplete_table = Inr incomplete_table"
    by (simp add: table_reader_def)
  have n: "{''TXNDATE'', ''BANKBOOKINGREFNO'', ''CREDITEDON''} \<noteq> ({} :: string set)"
    by simp
  have w: "module_state \<lparr>module_state = shipped, history = ([] :: unit effect list)\<rparr> = shipped"
    by simp
  show ?thesis
    using missing_columns_fail [of "''csv''" table_reader incomplete_table incomplete_table shipped
        "''karur_vysya''" "''booking''" karur_vysya_booking "''i.csv''"
        "\<lparr>module_state = shipped, history = []\<rparr>"]
      r shipped_karur_vysya(1) n w
    unfolding incomplete_table_missing by simp
qed












end
